theory Spec2Isabelle
  imports Main "HOL-Library.Monad_Syntax"
begin

section \<open>Python values and the native object graph\<close>

text \<open>
  The converter of \<^verbatim>\<open>visio_to_markdown_standalone.py\<close> reads an object graph it does
  not own (pages, shapes, connects) by probing attribute names. The graph is modelled
  as an explicit store: an object is an address, the store maps an address to the
  object's attribute table, and an attribute value that is an object is a reference
  \<open>VRef\<close>. Child collections may therefore share objects and contain cycles.

  Texts are \<open>string\<close>s read as sequences of Python characters: one \<open>char\<close> is one
  code point in the range U+0000 .. U+00FF, so \<open>length\<close> counts characters as
  Python's \<^verbatim>\<open>len\<close> does.
\<close>

type_synonym addr = nat

datatype pyval =
    VNone
  | VBool bool
  | VInt int
  | VStr string
  | VBytes string
  | VList "pyval list"
  | VDict "(pyval \<times> pyval) list"
  | VRef addr

text \<open>
  What a named member of an object is: a plain value (\<open>Attr\<close>), a callable whose
  zero-argument invocation returns a value (\<open>Call\<close>) or raises (\<open>CallRaises\<close>), or a
  property whose lookup raises something other than \<^verbatim>\<open>AttributeError\<close>
  (\<open>LookupRaises\<close>). A name that is not in the table is absent. Plain values are not
  callable.
\<close>

datatype attr = Attr pyval | Call pyval | CallRaises | LookupRaises

type_synonym pyobj = "(string \<times> attr) list"

type_synonym heap = "addr \<Rightarrow> pyobj"

text \<open>
  A computation that may raise returns \<open>None\<close> for "an exception was raised"; every
  handler of the source is a bare \<^verbatim>\<open>except\<close> or \<^verbatim>\<open>except Exception\<close>, so which
  exception it was never matters.
\<close>

text \<open>
  Member lookup. None of \<^verbatim>\<open>None\<close>, \<^verbatim>\<open>bool\<close>, \<^verbatim>\<open>int\<close>, \<^verbatim>\<open>str\<close>, \<^verbatim>\<open>bytes\<close>,
  \<^verbatim>\<open>list\<close> and \<^verbatim>\<open>dict\<close> has a member with one of the names the converter probes, so
  only references have members here.
\<close>

definition lookup_attr :: "heap \<Rightarrow> pyval \<Rightarrow> string \<Rightarrow> attr option" where
  "lookup_attr h obj attr_name =
     (case obj of VRef a \<Rightarrow> map_of (h a) attr_name | _ \<Rightarrow> None)"

text \<open>\<^verbatim>\<open>hasattr(obj, name)\<close>: false when the member is absent, and it lets every
  exception of the lookup other than \<^verbatim>\<open>AttributeError\<close> through.\<close>

definition py_hasattr :: "heap \<Rightarrow> pyval \<Rightarrow> string \<Rightarrow> bool option" where
  "py_hasattr h obj attr_name =
     (case lookup_attr h obj attr_name of
        None \<Rightarrow> Some False
      | Some LookupRaises \<Rightarrow> None
      | Some _ \<Rightarrow> Some True)"

text \<open>Truthiness, as \<^verbatim>\<open>if x:\<close> and \<^verbatim>\<open>x or y\<close> test it. An object is an instance of
  a class that defines neither \<^verbatim>\<open>__bool__\<close> nor \<^verbatim>\<open>__len__\<close>, so it is truthy.\<close>

fun py_truthy :: "pyval \<Rightarrow> bool" where
  "py_truthy VNone = False"
| "py_truthy (VBool b) = b"
| "py_truthy (VInt i) = (i \<noteq> 0)"
| "py_truthy (VStr s) = (s \<noteq> [])"
| "py_truthy (VBytes b) = (b \<noteq> [])"
| "py_truthy (VList xs) = (xs \<noteq> [])"
| "py_truthy (VDict kvs) = (kvs \<noteq> [])"
| "py_truthy (VRef a) = True"

text \<open>Iteration (\<^verbatim>\<open>for x in v\<close>, \<^verbatim>\<open>list(v)\<close>): \<^verbatim>\<open>TypeError\<close> on a value that is
  not iterable.\<close>

fun py_iter :: "pyval \<Rightarrow> pyval list option" where
  "py_iter (VList xs) = Some xs"
| "py_iter (VStr s) = Some (map (\<lambda>c. VStr [c]) s)"
| "py_iter (VBytes b) = Some (map (\<lambda>c. VInt (of_char c)) b)"
| "py_iter (VDict kvs) = Some (map fst kvs)"
| "py_iter _ = None"

subsection \<open>Characters and strings\<close>

text \<open>\<^verbatim>\<open>str.isalnum\<close>, \<^verbatim>\<open>str.isspace\<close> (the characters \<^verbatim>\<open>strip\<close> removes) and
  \<^verbatim>\<open>str.lower\<close> on the code points U+0000 .. U+00FF, by their numbers.\<close>

definition py_isalnum :: "char \<Rightarrow> bool" where
  "py_isalnum c = (let n = (of_char c :: nat) in
     (48 \<le> n \<and> n \<le> 57) \<or> (65 \<le> n \<and> n \<le> 90) \<or> (97 \<le> n \<and> n \<le> 122) \<or>
     n = 170 \<or> n = 178 \<or> n = 179 \<or> n = 181 \<or> n = 185 \<or> n = 186 \<or>
     n = 188 \<or> n = 189 \<or> n = 190 \<or>
     (192 \<le> n \<and> n \<noteq> 215 \<and> n \<noteq> 247))"

definition py_isspace :: "char \<Rightarrow> bool" where
  "py_isspace c = (let n = (of_char c :: nat) in
     (9 \<le> n \<and> n \<le> 13) \<or> (28 \<le> n \<and> n \<le> 32) \<or> n = 133 \<or> n = 160)"

definition py_lower_char :: "char \<Rightarrow> char" where
  "py_lower_char c = (let n = (of_char c :: nat) in
     if (65 \<le> n \<and> n \<le> 90) \<or> (192 \<le> n \<and> n \<le> 222 \<and> n \<noteq> 215)
     then char_of (n + 32) else c)"

definition py_lower :: "string \<Rightarrow> string" where
  "py_lower s = map py_lower_char s"

definition py_strip :: "string \<Rightarrow> string" where
  "py_strip s = rev (dropWhile py_isspace (rev (dropWhile py_isspace s)))"

definition py_startswith :: "string \<Rightarrow> string \<Rightarrow> bool" where
  "py_startswith s p = (take (length p) s = p)"

text \<open>\<^verbatim>\<open>sub in s\<close> on strings.\<close>

fun py_contains :: "string \<Rightarrow> string \<Rightarrow> bool" where
  "py_contains sub [] = (sub = [])"
| "py_contains sub (c # cs) = (py_startswith (c # cs) sub \<or> py_contains sub cs)"

fun join_sep :: "string \<Rightarrow> string list \<Rightarrow> string" where
  "join_sep sep [] = []"
| "join_sep sep [x] = x"
| "join_sep sep (x # y # ys) = x @ sep @ join_sep sep (y # ys)"

subsection \<open>\<^verbatim>\<open>str\<close> and \<^verbatim>\<open>repr\<close>\<close>

definition digit_char :: "nat \<Rightarrow> char" where
  "digit_char n = char_of (if n < 10 then 48 + n else 87 + n)"

fun str_nat :: "nat \<Rightarrow> string" where
  "str_nat n = (if n < 10 then [digit_char n] else str_nat (n div 10) @ [digit_char (n mod 10)])"

fun hex_nat :: "nat \<Rightarrow> string" where
  "hex_nat n = (if n < 16 then [digit_char n] else hex_nat (n div 16) @ [digit_char (n mod 16)])"

definition str_int :: "int \<Rightarrow> string" where
  "str_int i = (if i < 0 then CHR ''-'' # str_nat (nat (- i)) else str_nat (nat i))"

definition hex_escape :: "char \<Rightarrow> string" where
  "hex_escape c = [CHR 0x5C, CHR ''x'', digit_char (of_char c div 16), digit_char (of_char c mod 16)]"

definition repr_quote :: "string \<Rightarrow> char" where
  "repr_quote s = (if CHR 0x27 \<in> set s \<and> CHR 0x22 \<notin> set s then CHR 0x22 else CHR 0x27)"

definition repr_str_char :: "char \<Rightarrow> char \<Rightarrow> string" where
  "repr_str_char q c = (let n = (of_char c :: nat) in
     if c = q \<or> c = CHR 0x5C then [CHR 0x5C, c]
     else if n = 9 then [CHR 0x5C, CHR ''t'']
     else if n = 10 then [CHR 0x5C, CHR ''n'']
     else if n = 13 then [CHR 0x5C, CHR ''r'']
     else if n < 32 \<or> (127 \<le> n \<and> n \<le> 160) \<or> n = 173 then hex_escape c
     else [c])"

definition repr_bytes_char :: "char \<Rightarrow> char \<Rightarrow> string" where
  "repr_bytes_char q c = (let n = (of_char c :: nat) in
     if c = q \<or> c = CHR 0x5C then [CHR 0x5C, c]
     else if n = 9 then [CHR 0x5C, CHR ''t'']
     else if n = 10 then [CHR 0x5C, CHR ''n'']
     else if n = 13 then [CHR 0x5C, CHR ''r'']
     else if n < 32 \<or> 127 \<le> n then hex_escape c
     else [c])"

definition repr_str :: "string \<Rightarrow> string" where
  "repr_str s = (let q = repr_quote s in [q] @ concat (map (repr_str_char q) s) @ [q])"

definition repr_bytes :: "string \<Rightarrow> string" where
  "repr_bytes s = (let q = repr_quote s in CHR ''b'' # [q] @ concat (map (repr_bytes_char q) s) @ [q])"

text \<open>\<^verbatim>\<open>repr\<close>. An object prints as an instance of a class that defines neither
  \<^verbatim>\<open>__repr__\<close> nor \<^verbatim>\<open>__str__\<close>, the class name left as \<^verbatim>\<open>object\<close>.\<close>

fun py_repr :: "pyval \<Rightarrow> string" where
  "py_repr VNone = ''None''"
| "py_repr (VBool b) = (if b then ''True'' else ''False'')"
| "py_repr (VInt i) = str_int i"
| "py_repr (VStr s) = repr_str s"
| "py_repr (VBytes b) = repr_bytes b"
| "py_repr (VList xs) = ''['' @ join_sep '', '' (map py_repr xs) @ '']''"
| "py_repr (VDict kvs) =
     ''{'' @ join_sep '', '' (map (\<lambda>kv. py_repr (fst kv) @ '': '' @ py_repr (snd kv)) kvs) @ ''}''"
| "py_repr (VRef a) = ''<object object at 0x'' @ hex_nat a @ ''>''"

text \<open>\<^verbatim>\<open>str(v)\<close>, which is also what an f-string field \<^verbatim>\<open>{v}\<close> prints.\<close>

definition py_str :: "pyval \<Rightarrow> string" where
  "py_str v = (case v of VStr s \<Rightarrow> s | _ \<Rightarrow> py_repr v)"

section \<open>Extraction\<close>

subsection \<open>Defensive Attribute Accessor (\<^verbatim>\<open>_get_attribute_value\<close>)\<close>

text \<open>The body of the \<^verbatim>\<open>try\<close> block; leaving the block without a \<^verbatim>\<open>return\<close>
  reaches \<^verbatim>\<open>return default\<close>.\<close>

definition get_attribute_value_try :: "heap \<Rightarrow> pyval \<Rightarrow> string \<Rightarrow> pyval \<Rightarrow> pyval option" where
  "get_attribute_value_try h obj attr_name dflt = do {
     present \<leftarrow> py_hasattr h obj attr_name;
     if present then
       (case lookup_attr h obj attr_name of
          Some (Attr v) \<Rightarrow> Some v
        | Some (Call v) \<Rightarrow> Some v
        | Some CallRaises \<Rightarrow> None
        | Some LookupRaises \<Rightarrow> None
        | None \<Rightarrow> None)
     else Some dflt
   }"

definition get_attribute_value :: "heap \<Rightarrow> pyval \<Rightarrow> string \<Rightarrow> pyval \<Rightarrow> pyval option" where
  "get_attribute_value h obj attr_name dflt =
     (case get_attribute_value_try h obj attr_name dflt of
        None \<Rightarrow> Some dflt
      | Some v \<Rightarrow> Some v)"

subsection \<open>Collection Normalizer (\<^verbatim>\<open>_get_shapes_from_object\<close>)\<close>

text \<open>One round of the loop over the candidate names: what the candidate adds to
  \<^verbatim>\<open>shapes\<close>. The \<^verbatim>\<open>hasattr\<close> test stands outside every \<^verbatim>\<open>try\<close>.\<close>

definition shapes_of_candidate :: "heap \<Rightarrow> pyval \<Rightarrow> string \<Rightarrow> pyval list option" where
  "shapes_of_candidate h obj attr_name = do {
     present \<leftarrow> py_hasattr h obj attr_name;
     if present then
       (case lookup_attr h obj attr_name of
          Some (Call r) \<Rightarrow>
            Some (if py_truthy r then (case r of VList xs \<Rightarrow> xs | _ \<Rightarrow> [r]) else [])
        | Some CallRaises \<Rightarrow> Some []
        | Some (Attr v) \<Rightarrow>
            Some (if v = VNone then []
                  else (case v of
                          VList xs \<Rightarrow> xs
                        | _ \<Rightarrow> (case py_iter v of None \<Rightarrow> [] | Some xs \<Rightarrow> xs)))
        | Some LookupRaises \<Rightarrow> None
        | None \<Rightarrow> None)
     else Some []
   }"

definition get_shapes_from_object :: "heap \<Rightarrow> pyval \<Rightarrow> pyval list option" where
  "get_shapes_from_object h obj = do {
     a \<leftarrow> shapes_of_candidate h obj ''shapes'';
     b \<leftarrow> shapes_of_candidate h obj ''child_shapes'';
     c \<leftarrow> shapes_of_candidate h obj ''sub_shapes'';
     Some (a @ b @ c)
   }"

subsection \<open>Connection Extractor (\<^verbatim>\<open>_extract_connections\<close>)\<close>

text \<open>The loop over the entries of \<^verbatim>\<open>connects\<close>; the state is
  \<^verbatim>\<open>(from_id, to_id)\<close>.\<close>

fun scan_connects :: "heap \<Rightarrow> pyval list \<Rightarrow> pyval \<times> pyval \<Rightarrow> (pyval \<times> pyval) option" where
  "scan_connects h [] ids = Some ids"
| "scan_connects h (connect # rest) ids = do {
     from_shape \<leftarrow> get_attribute_value h connect ''from_shape'' VNone;
     to_shape \<leftarrow> get_attribute_value h connect ''to_shape'' VNone;
     from_id \<leftarrow> (if py_truthy from_shape then get_attribute_value h from_shape ''ID'' VNone
                 else Some (fst ids));
     to_id \<leftarrow> (if py_truthy to_shape then get_attribute_value h to_shape ''ID'' VNone
               else Some (snd ids));
     scan_connects h rest (from_id, to_id)
   }"

text \<open>Lines 108 to 124: what the first block appends to \<^verbatim>\<open>connections\<close>. The
  \<^verbatim>\<open>append\<close> is its last statement.\<close>

definition connections_from_connects :: "heap \<Rightarrow> pyval \<Rightarrow> (string \<times> string) list option" where
  "connections_from_connects h shape = do {
     present \<leftarrow> py_hasattr h shape ''connects'';
     if present then do {
       connects \<leftarrow> get_attribute_value h shape ''connects'' (VList []);
       if py_truthy connects then do {
         entries \<leftarrow> py_iter connects;
         ids \<leftarrow> scan_connects h entries (VNone, VNone);
         Some (if py_truthy (fst ids) \<and> py_truthy (snd ids)
               then [(py_str (fst ids), py_str (snd ids))] else [])
       } else Some []
     } else Some []
   }"

text \<open>Lines 127 to 137: what the second block appends.\<close>

definition connections_from_one_d :: "heap \<Rightarrow> pyval \<Rightarrow> (string \<times> string) list option" where
  "connections_from_one_d h shape = do {
     one_d \<leftarrow> py_hasattr h shape ''one_d'';
     marked \<leftarrow> (if one_d then Some True else py_hasattr h shape ''OneD'');
     if marked then do {
       begin_shape \<leftarrow> get_attribute_value h shape ''begin_shape'' VNone;
       end_shape \<leftarrow> get_attribute_value h shape ''end_shape'' VNone;
       if py_truthy begin_shape \<and> py_truthy end_shape then do {
         from_id \<leftarrow> get_attribute_value h begin_shape ''ID'' VNone;
         to_id \<leftarrow> get_attribute_value h end_shape ''ID'' VNone;
         Some (if py_truthy from_id \<and> py_truthy to_id
               then [(py_str from_id, py_str to_id)] else [])
       } else Some []
     } else Some []
   }"

text \<open>The two blocks share one \<^verbatim>\<open>try\<close>; the handler passes and the function returns
  the list as it stands.\<close>

definition extract_connections :: "heap \<Rightarrow> pyval \<Rightarrow> (string \<times> string) list option" where
  "extract_connections h shape =
     (case connections_from_connects h shape of
        None \<Rightarrow> Some []
      | Some a \<Rightarrow>
          (case connections_from_one_d h shape of
             None \<Rightarrow> Some a
           | Some b \<Rightarrow> Some (a @ b)))"

subsection \<open>Media Prober (\<^verbatim>\<open>_extract_image_from_shape\<close>, \<^verbatim>\<open>_extract_media_from_page\<close>)\<close>

text \<open>The step the per-shape probe repeats: \<^verbatim>\<open>if hasattr(obj, n): v = accessor(obj, n);
  if v: return v\<close>. \<open>VNone\<close> stands for "go on to the next method"; a value that is
  returned is truthy, so it is never \<open>VNone\<close>.\<close>

definition probe_member :: "heap \<Rightarrow> pyval \<Rightarrow> string \<Rightarrow> pyval option" where
  "probe_member h obj attr_name = do {
     present \<leftarrow> py_hasattr h obj attr_name;
     if present then do {
       v \<leftarrow> get_attribute_value h obj attr_name VNone;
       Some (if py_truthy v then v else VNone)
     } else Some VNone
   }"

text \<open>The same step on a member of a member: \<^verbatim>\<open>if hasattr(shape, outer): o =
  accessor(shape, outer); if o [and] hasattr(o, inner): ...\<close> (methods 4 and 5).\<close>

definition probe_nested :: "heap \<Rightarrow> pyval \<Rightarrow> string \<Rightarrow> string \<Rightarrow> pyval option" where
  "probe_nested h shape outer inner = do {
     present \<leftarrow> py_hasattr h shape outer;
     if present then do {
       inner_obj \<leftarrow> get_attribute_value h shape outer VNone;
       if py_truthy inner_obj then probe_member h inner_obj inner else Some VNone
     } else Some VNone
   }"

text \<open>The \<^verbatim>\<open>try\<close> block. The statements that only log are left out, but for the
  lookups they make. Method 6 reads \<^verbatim>\<open>cells\<close> and only logs: whether it raises or
  not, the function returns \<^verbatim>\<open>None\<close> after it.\<close>

definition extract_image_from_shape_try :: "heap \<Rightarrow> pyval \<Rightarrow> pyval option" where
  "extract_image_from_shape_try h shape = do {
     shape_id \<leftarrow> get_attribute_value h shape ''ID'' VNone;
     image_data \<leftarrow> probe_member h shape ''image_data'';
     if py_truthy image_data then Some image_data else do {
       image \<leftarrow> probe_member h shape ''image'';
       if py_truthy image then Some image else do {
         file_data \<leftarrow> probe_member h shape ''file'';
         if py_truthy file_data then Some file_data else do {
           master_image \<leftarrow> probe_nested h shape ''master_shape'' ''image_data'';
           if py_truthy master_image then Some master_image else do {
             fill_image \<leftarrow> probe_nested h shape ''fill'' ''image'';
             if py_truthy fill_image then Some fill_image else do {
               cells \<leftarrow> py_hasattr h shape ''cells'';
               Some VNone
             }
           }
         }
       }
     }
   }"

definition extract_image_from_shape :: "heap \<Rightarrow> pyval \<Rightarrow> pyval option" where
  "extract_image_from_shape h shape =
     (case extract_image_from_shape_try h shape of
        None \<Rightarrow> Some VNone
      | Some v \<Rightarrow> Some v)"

record media_item =
  m_index :: pyval
  m_data :: pyval
  m_source :: string

text \<open>Method 1 (lines 158 to 176): what it appends to \<^verbatim>\<open>media_items\<close>.\<close>

definition media_from_media :: "heap \<Rightarrow> pyval \<Rightarrow> media_item list option" where
  "media_from_media h page = do {
     present \<leftarrow> py_hasattr h page ''media'';
     if present then do {
       media \<leftarrow> get_attribute_value h page ''media'' VNone;
       Some (if py_truthy media then
               (case media of
                  VList xs \<Rightarrow>
                    map (\<lambda>(idx, item). \<lparr>m_index = VInt (int idx), m_data = item,
                                         m_source = ''page.media''\<rparr>) (enumerate 0 xs)
                | VDict kvs \<Rightarrow>
                    map (\<lambda>(k, item). \<lparr>m_index = k, m_data = item,
                                       m_source = ''page.media''\<rparr>) kvs
                | _ \<Rightarrow> [])
             else [])
     } else Some []
   }"

text \<open>Method 2 (lines 179 to 189).\<close>

definition media_from_images :: "heap \<Rightarrow> pyval \<Rightarrow> media_item list option" where
  "media_from_images h page = do {
     present \<leftarrow> py_hasattr h page ''images'';
     if present then do {
       images \<leftarrow> get_attribute_value h page ''images'' VNone;
       Some (if py_truthy images then
               (case images of
                  VList xs \<Rightarrow>
                    map (\<lambda>(idx, item). \<lparr>m_index = VInt (int idx), m_data = item,
                                         m_source = ''page.images''\<rparr>) (enumerate 0 xs)
                | _ \<Rightarrow> [])
             else [])
     } else Some []
   }"

text \<open>Method 3 (lines 192 to 194) adds nothing. All three stand in one \<^verbatim>\<open>try\<close> whose
  handler logs; the function returns the list as it stands.\<close>

definition extract_media_from_page :: "heap \<Rightarrow> pyval \<Rightarrow> media_item list option" where
  "extract_media_from_page h page =
     (case media_from_media h page of
        None \<Rightarrow> Some []
      | Some a \<Rightarrow>
          (case media_from_images h page of
             None \<Rightarrow> Some a
           | Some b \<Rightarrow>
               (case do { present \<leftarrow> py_hasattr h page ''filename'';
                          if present then get_attribute_value h page ''filename'' VNone
                          else Some VNone } of
                  None \<Rightarrow> Some (a @ b)
                | Some filename \<Rightarrow> Some (a @ b))))"

subsection \<open>Shape Normalizer (\<^verbatim>\<open>_extract_shape_info\<close>)\<close>

text \<open>The dictionary \<^verbatim>\<open>shape_info\<close>, every key of which the normalizer sets. The
  identifier is the value the accessor returned, \<open>VNone\<close> when there is none.\<close>

datatype shape_info = ShapeInfo
  (s_text: string)
  (s_name: string)
  (s_id: pyval)
  (s_type: string)
  (s_sub_shapes: "shape_info list")
  (s_connections: "(string \<times> string) list")
  (s_has_image: bool)

text \<open>The test of lines 328 and 329 that lets a normalized child into
  \<^verbatim>\<open>shape_info["sub_shapes"]\<close>.\<close>

definition keeps_sub_shape :: "shape_info \<Rightarrow> bool" where
  "keeps_sub_shape sub_info \<longleftrightarrow>
     s_text sub_info \<noteq> [] \<or> s_name sub_info \<noteq> [] \<or> s_sub_shapes sub_info \<noteq> [] \<or>
     s_has_image sub_info \<or> py_truthy (s_id sub_info)"

text \<open>The loop of lines 325 to 330 over the results of the recursive calls, in
  order; the second argument is \<^verbatim>\<open>shape_info["sub_shapes"]\<close> so far. A call that
  raised ends the loop (the handler of line 331 passes) and leaves the list as it
  stands.\<close>

fun collect_sub_shapes :: "shape_info option list \<Rightarrow> shape_info list \<Rightarrow> shape_info list" where
  "collect_sub_shapes [] acc = acc"
| "collect_sub_shapes (None # rest) acc = acc"
| "collect_sub_shapes (Some sub_info # rest) acc =
     collect_sub_shapes rest (if keeps_sub_shape sub_info then acc @ [sub_info] else acc)"

text \<open>Lines 304 to 310: the \<^verbatim>\<open>try\<close> block that resolves the type from the master.\<close>

definition shape_type :: "heap \<Rightarrow> pyval \<Rightarrow> string option" where
  "shape_type h shape =
     (case do {
             master \<leftarrow> get_attribute_value h shape ''master_shape'' VNone;
             if py_truthy master then do {
               master_name \<leftarrow> get_attribute_value h master ''name'' VNone;
               Some (if py_truthy master_name then py_str master_name else [])
             } else Some []
           } of
        None \<Rightarrow> Some []
      | Some t \<Rightarrow> Some t)"

function extract_shape_info :: "heap \<Rightarrow> pyval \<Rightarrow> int \<Rightarrow> shape_info option" where
  "extract_shape_info h shape depth = do {
     text_v \<leftarrow> get_attribute_value h shape ''text'' (VStr []);
     name_v \<leftarrow> get_attribute_value h shape ''name'' (VStr []);
     upper_id \<leftarrow> get_attribute_value h shape ''ID'' VNone;
     id_v \<leftarrow> (if py_truthy upper_id then Some upper_id
              else get_attribute_value h shape ''id'' VNone);
     type_v \<leftarrow> shape_type h shape;
     connections \<leftarrow> extract_connections h shape;
     image_data \<leftarrow> extract_image_from_shape h shape;
     Some (ShapeInfo (py_strip (py_str text_v)) (py_str name_v) id_v type_v
       (if depth < 5 then
          (case get_shapes_from_object h shape of
             None \<Rightarrow> []
           | Some sub_shapes \<Rightarrow>
               collect_sub_shapes
                 (map (\<lambda>sub_shape. extract_shape_info h sub_shape (depth + 1)) sub_shapes) [])
        else [])
       connections (py_truthy image_data))
   }"
  by pat_completeness auto
termination
  by (relation "measure (\<lambda>(h, shape, depth). nat (5 - depth))") auto

subsection \<open>Page Aggregator (\<^verbatim>\<open>_extract_page_data\<close>)\<close>

record page_data =
  p_name :: string
  p_shapes :: "shape_info list"
  p_connections :: "(string \<times> string) list"
  p_images_count :: int
  p_page_media :: "media_item list"

text \<open>The loop of lines 369 to 386; the state is \<^verbatim>\<open>page_data\<close>. A shape whose
  extraction raised is logged and skipped.\<close>

fun process_shapes :: "heap \<Rightarrow> pyval list \<Rightarrow> page_data \<Rightarrow> page_data" where
  "process_shapes h [] pd = pd"
| "process_shapes h (shape # rest) pd =
     process_shapes h rest
       (case extract_shape_info h shape 0 of
          None \<Rightarrow> pd
        | Some shape_info \<Rightarrow>
            pd\<lparr>p_shapes := p_shapes pd @ [shape_info],
               p_connections := p_connections pd @ s_connections shape_info,
               p_images_count := p_images_count pd + (if s_has_image shape_info then 1 else 0)\<rparr>)"

definition extract_page_data :: "heap \<Rightarrow> pyval \<Rightarrow> page_data option" where
  "extract_page_data h page = do {
     page_name \<leftarrow> get_attribute_value h page ''name'' (VStr ''Unnamed Page'');
     page_media \<leftarrow> extract_media_from_page h page;
     shapes_to_process \<leftarrow> get_shapes_from_object h page;
     Some (process_shapes h shapes_to_process
       \<lparr>p_name = (if py_truthy page_name then py_str page_name else ''Unnamed Page''),
        p_shapes = [],
        p_connections = [],
        p_images_count = (if page_media \<noteq> [] then int (length page_media) else 0),
        p_page_media = page_media\<rparr>)
   }"

section \<open>Extraction when a conversion raises\<close>

text \<open>
  \<^verbatim>\<open>str(v)\<close> and the truth test of \<^verbatim>\<open>v\<close> call \<^verbatim>\<open>__str__\<close> and \<^verbatim>\<open>__bool__\<close> of
  the object's class, and either may raise. The definitions above are for stores whose
  objects define neither, where no conversion raises. The definitions of this section
  are the same functions of the source with every conversion written out as a step
  that may raise: an object's table may hold the members \<^verbatim>\<open>__bool__\<close> and
  \<^verbatim>\<open>__str__\<close>. The other special methods (\<^verbatim>\<open>__len__\<close>, \<^verbatim>\<open>__repr__\<close>,
  \<^verbatim>\<open>__iter__\<close>) stay at their defaults. A conversion inside a \<^verbatim>\<open>try\<close> block
  fails the block; the conversions of lines 295, 298, 301 and 319 stand outside every
  block.
\<close>

text \<open>The truth test: \<^verbatim>\<open>__bool__\<close> has to return a \<^verbatim>\<open>bool\<close>.\<close>

definition try_truthy :: "heap \<Rightarrow> pyval \<Rightarrow> bool option" where
  "try_truthy h v =
     (case lookup_attr h v ''__bool__'' of
        None \<Rightarrow> Some (py_truthy v)
      | Some (Call (VBool b)) \<Rightarrow> Some b
      | Some _ \<Rightarrow> None)"

text \<open>\<^verbatim>\<open>str(v)\<close> and the f-string field \<^verbatim>\<open>{v}\<close>: \<^verbatim>\<open>__str__\<close> has to return a
  \<^verbatim>\<open>str\<close>.\<close>

definition try_str :: "heap \<Rightarrow> pyval \<Rightarrow> string option" where
  "try_str h v =
     (case lookup_attr h v ''__str__'' of
        None \<Rightarrow> Some (py_str v)
      | Some (Call (VStr s)) \<Rightarrow> Some s
      | Some _ \<Rightarrow> None)"

text \<open>Lines 39 to 70; the truth test of line 59 stands inside the \<^verbatim>\<open>try\<close> of line 57.\<close>

definition shapes_of_candidate_cv :: "heap \<Rightarrow> pyval \<Rightarrow> string \<Rightarrow> pyval list option" where
  "shapes_of_candidate_cv h obj attr_name = do {
     present \<leftarrow> py_hasattr h obj attr_name;
     if present then
       (case lookup_attr h obj attr_name of
          Some (Call r) \<Rightarrow>
            Some (case try_truthy h r of
                    None \<Rightarrow> []
                  | Some t \<Rightarrow> if t then (case r of VList xs \<Rightarrow> xs | _ \<Rightarrow> [r]) else [])
        | Some CallRaises \<Rightarrow> Some []
        | Some (Attr v) \<Rightarrow>
            Some (if v = VNone then []
                  else (case v of
                          VList xs \<Rightarrow> xs
                        | _ \<Rightarrow> (case py_iter v of None \<Rightarrow> [] | Some xs \<Rightarrow> xs)))
        | Some LookupRaises \<Rightarrow> None
        | None \<Rightarrow> None)
     else Some []
   }"

definition get_shapes_from_object_cv :: "heap \<Rightarrow> pyval \<Rightarrow> pyval list option" where
  "get_shapes_from_object_cv h obj = do {
     a \<leftarrow> shapes_of_candidate_cv h obj ''shapes'';
     b \<leftarrow> shapes_of_candidate_cv h obj ''child_shapes'';
     c \<leftarrow> shapes_of_candidate_cv h obj ''sub_shapes'';
     Some (a @ b @ c)
   }"

text \<open>Lines 94 to 141.\<close>

fun scan_connects_cv :: "heap \<Rightarrow> pyval list \<Rightarrow> pyval \<times> pyval \<Rightarrow> (pyval \<times> pyval) option" where
  "scan_connects_cv h [] ids = Some ids"
| "scan_connects_cv h (connect # rest) ids = do {
     from_shape \<leftarrow> get_attribute_value h connect ''from_shape'' VNone;
     to_shape \<leftarrow> get_attribute_value h connect ''to_shape'' VNone;
     has_from \<leftarrow> try_truthy h from_shape;
     from_id \<leftarrow> (if has_from then get_attribute_value h from_shape ''ID'' VNone
                 else Some (fst ids));
     has_to \<leftarrow> try_truthy h to_shape;
     to_id \<leftarrow> (if has_to then get_attribute_value h to_shape ''ID'' VNone
               else Some (snd ids));
     scan_connects_cv h rest (from_id, to_id)
   }"

text \<open>\<^verbatim>\<open>if from_id and to_id: connections.append((str(from_id), str(to_id)))\<close>.\<close>

definition pair_of_ids :: "heap \<Rightarrow> pyval \<Rightarrow> pyval \<Rightarrow> (string \<times> string) list option" where
  "pair_of_ids h from_id to_id = do {
     has_from \<leftarrow> try_truthy h from_id;
     if has_from then do {
       has_to \<leftarrow> try_truthy h to_id;
       if has_to then do {
         from_s \<leftarrow> try_str h from_id;
         to_s \<leftarrow> try_str h to_id;
         Some [(from_s, to_s)]
       } else Some []
     } else Some []
   }"

definition connections_from_connects_cv :: "heap \<Rightarrow> pyval \<Rightarrow> (string \<times> string) list option" where
  "connections_from_connects_cv h shape = do {
     present \<leftarrow> py_hasattr h shape ''connects'';
     if present then do {
       connects \<leftarrow> get_attribute_value h shape ''connects'' (VList []);
       any \<leftarrow> try_truthy h connects;
       if any then do {
         entries \<leftarrow> py_iter connects;
         ids \<leftarrow> scan_connects_cv h entries (VNone, VNone);
         pair_of_ids h (fst ids) (snd ids)
       } else Some []
     } else Some []
   }"

definition connections_from_one_d_cv :: "heap \<Rightarrow> pyval \<Rightarrow> (string \<times> string) list option" where
  "connections_from_one_d_cv h shape = do {
     one_d \<leftarrow> py_hasattr h shape ''one_d'';
     marked \<leftarrow> (if one_d then Some True else py_hasattr h shape ''OneD'');
     if marked then do {
       begin_shape \<leftarrow> get_attribute_value h shape ''begin_shape'' VNone;
       end_shape \<leftarrow> get_attribute_value h shape ''end_shape'' VNone;
       has_begin \<leftarrow> try_truthy h begin_shape;
       has_end \<leftarrow> (if has_begin then try_truthy h end_shape else Some False);
       if has_begin \<and> has_end then do {
         from_id \<leftarrow> get_attribute_value h begin_shape ''ID'' VNone;
         to_id \<leftarrow> get_attribute_value h end_shape ''ID'' VNone;
         pair_of_ids h from_id to_id
       } else Some []
     } else Some []
   }"

definition extract_connections_cv :: "heap \<Rightarrow> pyval \<Rightarrow> (string \<times> string) list option" where
  "extract_connections_cv h shape =
     (case connections_from_connects_cv h shape of
        None \<Rightarrow> Some []
      | Some a \<Rightarrow>
          (case connections_from_one_d_cv h shape of
             None \<Rightarrow> Some a
           | Some b \<Rightarrow> Some (a @ b)))"

text \<open>Lines 201 to 271. \<^verbatim>\<open>if hasattr(obj, n): v = accessor(obj, n); if v: log; return v\<close>;
  the log line of methods 1 to 3 prints the shape's identifier, as the log line of
  line 216 does. A value that is returned passed the truth test, so it is not
  \<^verbatim>\<open>None\<close>.\<close>

definition probe_member_cv :: "heap \<Rightarrow> pyval \<Rightarrow> string \<Rightarrow> pyval option \<Rightarrow> pyval option" where
  "probe_member_cv h obj attr_name logged = do {
     present \<leftarrow> py_hasattr h obj attr_name;
     if present then do {
       v \<leftarrow> get_attribute_value h obj attr_name VNone;
       found \<leftarrow> try_truthy h v;
       if found then do {
         line \<leftarrow> (case logged of None \<Rightarrow> Some [] | Some shape_id \<Rightarrow> try_str h shape_id);
         Some v
       } else Some VNone
     } else Some VNone
   }"

definition probe_nested_cv :: "heap \<Rightarrow> pyval \<Rightarrow> string \<Rightarrow> string \<Rightarrow> pyval option" where
  "probe_nested_cv h shape outer inner = do {
     present \<leftarrow> py_hasattr h shape outer;
     if present then do {
       inner_obj \<leftarrow> get_attribute_value h shape outer VNone;
       usable \<leftarrow> try_truthy h inner_obj;
       if usable then probe_member_cv h inner_obj inner None else Some VNone
     } else Some VNone
   }"

definition extract_image_from_shape_try_cv :: "heap \<Rightarrow> pyval \<Rightarrow> pyval option" where
  "extract_image_from_shape_try_cv h shape = do {
     shape_id \<leftarrow> get_attribute_value h shape ''ID'' VNone;
     has_id \<leftarrow> try_truthy h shape_id;
     line \<leftarrow> (if has_id then try_str h shape_id else Some []);
     image_data \<leftarrow> probe_member_cv h shape ''image_data'' (Some shape_id);
     if image_data \<noteq> VNone then Some image_data else do {
       image \<leftarrow> probe_member_cv h shape ''image'' (Some shape_id);
       if image \<noteq> VNone then Some image else do {
         file_data \<leftarrow> probe_member_cv h shape ''file'' (Some shape_id);
         if file_data \<noteq> VNone then Some file_data else do {
           master_image \<leftarrow> probe_nested_cv h shape ''master_shape'' ''image_data'';
           if master_image \<noteq> VNone then Some master_image else do {
             fill_image \<leftarrow> probe_nested_cv h shape ''fill'' ''image'';
             if fill_image \<noteq> VNone then Some fill_image else do {
               cells \<leftarrow> py_hasattr h shape ''cells'';
               Some VNone
             }
           }
         }
       }
     }
   }"

definition extract_image_from_shape_cv :: "heap \<Rightarrow> pyval \<Rightarrow> pyval option" where
  "extract_image_from_shape_cv h shape =
     (case extract_image_from_shape_try_cv h shape of
        None \<Rightarrow> Some VNone
      | Some v \<Rightarrow> Some v)"

text \<open>Lines 304 to 310.\<close>

definition shape_type_try_cv :: "heap \<Rightarrow> pyval \<Rightarrow> string option" where
  "shape_type_try_cv h shape = do {
     master \<leftarrow> get_attribute_value h shape ''master_shape'' VNone;
     has_master \<leftarrow> try_truthy h master;
     if has_master then do {
       master_name \<leftarrow> get_attribute_value h master ''name'' VNone;
       named \<leftarrow> try_truthy h master_name;
       if named then try_str h master_name else Some []
     } else Some []
   }"

definition shape_type_cv :: "heap \<Rightarrow> pyval \<Rightarrow> string option" where
  "shape_type_cv h shape =
     (case shape_type_try_cv h shape of None \<Rightarrow> Some [] | Some t \<Rightarrow> Some t)"

text \<open>Lines 328 and 329: the truth test of the identifier is reached only when the
  four tests before it are false.\<close>

definition keeps_sub_shape_cv :: "heap \<Rightarrow> shape_info \<Rightarrow> bool option" where
  "keeps_sub_shape_cv h sub_info =
     (if s_text sub_info \<noteq> [] \<or> s_name sub_info \<noteq> [] \<or> s_sub_shapes sub_info \<noteq> [] \<or>
         s_has_image sub_info
      then Some True else try_truthy h (s_id sub_info))"

text \<open>The loop of lines 325 to 330: a call that raised and a retention test that
  raised both end the loop.\<close>

fun collect_sub_shapes_cv ::
  "heap \<Rightarrow> shape_info option list \<Rightarrow> shape_info list \<Rightarrow> shape_info list" where
  "collect_sub_shapes_cv h [] acc = acc"
| "collect_sub_shapes_cv h (None # rest) acc = acc"
| "collect_sub_shapes_cv h (Some sub_info # rest) acc =
     (case keeps_sub_shape_cv h sub_info of
        None \<Rightarrow> acc
      | Some keep \<Rightarrow> collect_sub_shapes_cv h rest (if keep then acc @ [sub_info] else acc))"

text \<open>Lines 273 to 334. The log line of line 319 prints the identifier of a shape
  with an image.\<close>

function extract_shape_info_cv :: "heap \<Rightarrow> pyval \<Rightarrow> int \<Rightarrow> shape_info option" where
  "extract_shape_info_cv h shape depth = do {
     text_v \<leftarrow> get_attribute_value h shape ''text'' (VStr []);
     text_s \<leftarrow> try_str h text_v;
     name_v \<leftarrow> get_attribute_value h shape ''name'' (VStr []);
     name_s \<leftarrow> try_str h name_v;
     upper_id \<leftarrow> get_attribute_value h shape ''ID'' VNone;
     has_upper \<leftarrow> try_truthy h upper_id;
     id_v \<leftarrow> (if has_upper then Some upper_id
              else get_attribute_value h shape ''id'' VNone);
     type_v \<leftarrow> shape_type_cv h shape;
     connections \<leftarrow> extract_connections_cv h shape;
     image_data \<leftarrow> extract_image_from_shape_cv h shape;
     has_image \<leftarrow> try_truthy h image_data;
     line \<leftarrow> (if has_image then try_str h id_v else Some []);
     Some (ShapeInfo (py_strip text_s) name_s id_v type_v
       (if depth < 5 then
          (case get_shapes_from_object_cv h shape of
             None \<Rightarrow> []
           | Some sub_shapes \<Rightarrow>
               collect_sub_shapes_cv h
                 (map (\<lambda>sub_shape. extract_shape_info_cv h sub_shape (depth + 1)) sub_shapes) [])
        else [])
       connections has_image)
   }"
  by pat_completeness auto
termination
  by (relation "measure (\<lambda>(h, shape, depth). nat (5 - depth))") auto

section \<open>Rendering\<close>

text \<open>The glyph literals of the source hold characters beyond U+00FF. They are
  carried as the bytes the source file stores for them; the converter only ever
  appends them to an output line.\<close>

definition image_glyph :: string where
  "image_glyph = [CHR 0xC3, CHR 0xB0, CHR 0xC5, CHR 0xB8, CHR 0xE2, CHR 0x80, CHR 0x9C, CHR 0xC2, CHR 0xB7]"

definition check_glyph :: string where
  "check_glyph = [CHR 0xC3, CHR 0xA2, CHR 0xC5, CHR 0x93, CHR 0xE2, CHR 0x80, CHR 0xA6]"

subsection \<open>Identifier sanitization (\<^verbatim>\<open>_sanitize_mermaid_id\<close>)\<close>

definition sanitize_mermaid_id :: "string \<Rightarrow> pyval \<Rightarrow> string" where
  "sanitize_mermaid_id text_v shape_id =
     (if text_v \<noteq> [] then take 50 (map (\<lambda>c. if py_isalnum c then c else CHR ''_'') text_v)
      else if py_truthy shape_id then ''shape_'' @ py_str shape_id
      else ''unknown'')"

subsection \<open>Diagram Renderer (\<^verbatim>\<open>_generate_mermaid_diagram\<close>)\<close>

text \<open>The label of a shape: its text, or \<^verbatim>\<open>Image_<id>\<close> when it has none and
  carries an image (lines 425 to 427 and 448 to 452).\<close>

definition label_text :: "shape_info \<Rightarrow> string" where
  "label_text shape =
     (if s_text shape = [] \<and> s_has_image shape then ''Image_'' @ py_str (s_id shape)
      else s_text shape)"

text \<open>One round of the loop of lines 423 to 436 that fills \<^verbatim>\<open>shape_map\<close>.\<close>

definition map_shape :: "shape_info \<Rightarrow> (string \<rightharpoonup> string) \<Rightarrow> (string \<rightharpoonup> string)" where
  "map_shape shape shape_map =
     fold (\<lambda>sub_shape m.
             if s_text sub_shape \<noteq> []
             then m(py_str (s_id shape) @ ''_'' @ s_text sub_shape \<mapsto> s_text sub_shape)
             else m)
       (s_sub_shapes shape)
       (if py_truthy (s_id shape) \<and> label_text shape \<noteq> []
        then shape_map(py_str (s_id shape) \<mapsto> label_text shape)
        else shape_map)"

definition page_image_line :: "nat \<Rightarrow> string" where
  "page_image_line idx =
     ''    page_image_'' @ str_int (int idx) @ ''['' @ [CHR 0x22] @ image_glyph @
     '' Page Image '' @ str_int (int idx + 1) @ [CHR 0x22] @ '']''"

text \<open>One round of the loop of lines 446 to 462; the state is \<^verbatim>\<open>lines\<close> and
  \<^verbatim>\<open>added_nodes\<close>.\<close>

definition add_node :: "shape_info \<Rightarrow> string list \<times> string set \<Rightarrow> string list \<times> string set" where
  "add_node shape st =
     (let text_v = label_text shape; node_id = sanitize_mermaid_id text_v (s_id shape) in
      if text_v \<noteq> [] \<and> py_truthy (s_id shape) \<and> node_id \<notin> snd st then
        (fst st @
           [''    '' @ node_id @ ''['' @ [CHR 0x22] @
            map (\<lambda>c. if c = CHR 0x22 then CHR 0x27 else c) text_v @
            (if s_has_image shape then '' '' @ image_glyph else []) @
            [CHR 0x22] @ '']''],
         insert node_id (snd st))
      else st)"

text \<open>Lines 468 to 472: the edge line of one connection, if both ends are known.\<close>

definition connection_lines :: "(string \<rightharpoonup> string) \<Rightarrow> string \<times> string \<Rightarrow> string list" where
  "connection_lines shape_map c =
     (case (shape_map (fst c), shape_map (snd c)) of
        (Some from_text, Some to_text) \<Rightarrow>
          [''    '' @ sanitize_mermaid_id from_text (VStr (fst c)) @ '' --> '' @
           sanitize_mermaid_id to_text (VStr (snd c))]
      | _ \<Rightarrow> [])"

text \<open>The three tests of lines 485 to 489, on the lowercased text.\<close>

definition is_setup :: "string \<Rightarrow> bool" where
  "is_setup t \<longleftrightarrow> py_contains ''setup'' t \<or> py_startswith t ''0'' \<or> py_startswith t ''1''"

definition is_staging :: "string \<Rightarrow> bool" where
  "is_staging t \<longleftrightarrow> py_contains ''staging'' t \<or> py_startswith t ''2''"

definition is_finalization :: "string \<Rightarrow> bool" where
  "is_finalization t \<longleftrightarrow> py_contains ''finalization'' t \<or> py_startswith t ''3''"

text \<open>One round of the loop of lines 483 to 490; the state is \<^verbatim>\<open>(setup_shapes,
  staging_shapes, finalization_shapes)\<close>.\<close>

definition classify_shape ::
  "shape_info \<Rightarrow> shape_info list \<times> shape_info list \<times> shape_info list
     \<Rightarrow> shape_info list \<times> shape_info list \<times> shape_info list" where
  "classify_shape shape buckets =
     (case buckets of (setup_shapes, staging_shapes, finalization_shapes) \<Rightarrow>
        (let text_v = py_lower (s_text shape) in
         if is_setup text_v then (setup_shapes @ [shape], staging_shapes, finalization_shapes)
         else if is_staging text_v then (setup_shapes, staging_shapes @ [shape], finalization_shapes)
         else if is_finalization text_v then (setup_shapes, staging_shapes, finalization_shapes @ [shape])
         else buckets))"

definition classify_shapes ::
  "shape_info list \<Rightarrow> shape_info list \<times> shape_info list \<times> shape_info list" where
  "classify_shapes shapes = fold classify_shape shapes ([], [], [])"

text \<open>Lines 493 to 499 and 501 to 507: the edge between the first shapes of two
  buckets.\<close>

definition flow_lines :: "shape_info list \<Rightarrow> shape_info list \<Rightarrow> string list" where
  "flow_lines sources targets =
     (if sources \<noteq> [] \<and> targets \<noteq> [] then
        concat (map (\<lambda>s. concat (map (\<lambda>t.
          if s_text s \<noteq> [] \<and> s_text t \<noteq> [] then
            [''    '' @ sanitize_mermaid_id (s_text s) (s_id s) @ '' --> '' @
             sanitize_mermaid_id (s_text t) (s_id t)]
          else []) (take 1 targets))) (take 1 sources))
      else [])"

definition generate_mermaid_lines :: "page_data \<Rightarrow> string list" where
  "generate_mermaid_lines pd =
     (let shape_map = fold map_shape (p_shapes pd) Map.empty;
          lines0 = [''```mermaid'', ''graph TD''] @
                   map (\<lambda>(idx, media). page_image_line idx) (enumerate 0 (p_page_media pd));
          lines1 = fst (fold add_node (p_shapes pd) (lines0, {}))
      in
      (if p_connections pd \<noteq> [] then
         lines1 @ [[], ''    %% Connections''] @
         concat (map (connection_lines shape_map) (p_connections pd))
       else
         (case classify_shapes (p_shapes pd) of
            (setup_shapes, staging_shapes, finalization_shapes) \<Rightarrow>
              lines1 @ [[], ''    %% Hierarchical structure (inferred)''] @
              flow_lines setup_shapes staging_shapes @
              flow_lines staging_shapes finalization_shapes))
      @ [''```''])"

definition generate_mermaid_diagram :: "page_data \<Rightarrow> string" where
  "generate_mermaid_diagram pd = join_sep [CHR 0x0A] (generate_mermaid_lines pd)"

subsection \<open>Report Renderer: the detailed shapes of a page (\<^verbatim>\<open>_to_markdown\<close>, lines 568 to 611)\<close>

text \<open>The test of lines 576 and 577 that lets a shape into the listing.\<close>

definition shows_in_report :: "shape_info \<Rightarrow> bool" where
  "shows_in_report shape \<longleftrightarrow>
     s_text shape \<noteq> [] \<or> s_name shape \<noteq> [] \<or> s_type shape \<noteq> [] \<or>
     s_sub_shapes shape \<noteq> [] \<or> s_has_image shape"

text \<open>Lines 600 to 604: the bullet of one sub-shape.\<close>

definition sub_shape_lines :: "shape_info \<Rightarrow> string list" where
  "sub_shape_lines sub_shape =
     (if s_text sub_shape \<noteq> [] \<or> s_has_image sub_shape
      then [''  - '' @ s_text sub_shape @ (if s_has_image sub_shape then '' '' @ image_glyph else [])]
      else [])"

text \<open>Lines 579 to 606: what one listed shape appends to \<^verbatim>\<open>markdown\<close>, under the
  number it was given.\<close>

definition shape_entry :: "int \<Rightarrow> shape_info \<Rightarrow> string list" where
  "shape_entry shape_num shape =
     [''##### Shape '' @ str_int shape_num] @
     (if s_type shape \<noteq> [] then [''- **Type**: '' @ s_type shape] else []) @
     (if s_name shape \<noteq> [] then [''- **Name**: '' @ s_name shape] else []) @
     (if s_text shape \<noteq> [] then [''- **Text**: '' @ py_strip (s_text shape)] else []) @
     (if s_id shape \<noteq> VNone then [''- **ID**: '' @ py_str (s_id shape)] else []) @
     (if s_has_image shape then [''- **Contains Image**: '' @ check_glyph @ '' Yes''] else []) @
     (if s_sub_shapes shape \<noteq> [] then
        [''- **Sub-shapes**: '' @ str_int (int (length (s_sub_shapes shape)))] @
        concat (map sub_shape_lines (s_sub_shapes shape))
      else []) @
     [[]]"

text \<open>The loop of lines 574 to 606; the state is \<^verbatim>\<open>markdown\<close> and
  \<^verbatim>\<open>shape_num\<close>.\<close>

fun list_shapes :: "shape_info list \<Rightarrow> string list \<times> int \<Rightarrow> string list \<times> int" where
  "list_shapes [] st = st"
| "list_shapes (shape # rest) (markdown, shape_num) =
     list_shapes rest
       (if shows_in_report shape
        then (markdown @ shape_entry (shape_num + 1) shape, shape_num + 1)
        else (markdown, shape_num))"

definition no_content_notice :: string where
  "no_content_notice = ''*No shapes with content found on this page*'' @ [CHR 0x0A]"

definition no_shapes_notice :: string where
  "no_shapes_notice = ''*No shapes found on this page*'' @ [CHR 0x0A]"

definition detailed_shape_information :: "page_data \<Rightarrow> string list" where
  "detailed_shape_information pd =
     (if p_shapes pd \<noteq> [] then
        (case list_shapes (p_shapes pd)
                ([''#### Detailed Shape Information'' @ [CHR 0x0A],
                  ''**Total shapes**: '' @ str_int (int (length (p_shapes pd))) @ [CHR 0x0A]], 0) of
           (markdown, shape_num) \<Rightarrow>
             if shape_num = 0 then markdown @ [no_content_notice] else markdown)
      else [no_shapes_notice])"

section \<open>Specification-side definitions and example inputs\<close>

text \<open>What the accessor yields with default \<^verbatim>\<open>None\<close>.\<close>

definition member_value :: "heap \<Rightarrow> pyval \<Rightarrow> string \<Rightarrow> pyval" where
  "member_value h obj attr_name =
     (case lookup_attr h obj attr_name of Some (Attr v) \<Rightarrow> v | Some (Call v) \<Rightarrow> v | _ \<Rightarrow> VNone)"

text \<open>The identifier Strategy A holds for one end after the scan, told without the
  loop: the \<^verbatim>\<open>ID\<close> of the endpoint of the last entry whose endpoint is truthy,
  \<^verbatim>\<open>None\<close> when no entry has one.\<close>

definition last_end_id :: "heap \<Rightarrow> pyval list \<Rightarrow> string \<Rightarrow> pyval" where
  "last_end_id h entries end_name =
     (case filter (\<lambda>e. py_truthy (member_value h e end_name)) entries of
        [] \<Rightarrow> VNone
      | e # es \<Rightarrow> member_value h (member_value h (last (e # es)) end_name) ''ID'')"

text \<open>The retention predicate in the words of the specification's data model:
  non-empty text, non-empty name, non-empty sub_shapes, has_image, or a non-absent
  id.\<close>

definition has_observable_content :: "shape_info \<Rightarrow> bool" where
  "has_observable_content r \<longleftrightarrow>
     s_text r \<noteq> [] \<or> s_name r \<noteq> [] \<or> s_sub_shapes r \<noteq> [] \<or> s_has_image r \<or> s_id r \<noteq> VNone"

text \<open>A store given by the list of its objects; every other address holds an object
  without members.\<close>

definition heap_of :: "pyobj list \<Rightarrow> heap" where
  "heap_of objs = (\<lambda>a. if a < length objs then objs ! a else [])"





text \<open>Connectors: a shape (0) with two connects entries (1, 2) and a one-dimensional
  marker, the endpoints 3, 4 and 5 with the identifiers 1, 2 and 3, a connector (6)
  whose \<^verbatim>\<open>one_d\<close> property raises, and a shape (7) every probe of which fails.\<close>

definition connector_heap :: heap where
  "connector_heap = heap_of
     [[(''connects'', Attr (VList [VRef 1, VRef 2])), (''one_d'', Attr (VBool True)),
       (''begin_shape'', Attr (VRef 3)), (''end_shape'', Attr (VRef 4))],
      [(''from_shape'', Attr (VRef 3)), (''to_shape'', Attr (VRef 4))],
      [(''from_shape'', Attr (VRef 4)), (''to_shape'', Attr (VRef 5))],
      [(''ID'', Attr (VInt 1))],
      [(''ID'', Attr (VInt 2))],
      [(''ID'', Attr (VInt 3))],
      [(''connects'', Attr (VList [VRef 1])), (''one_d'', LookupRaises)],
      [(''text'', LookupRaises), (''name'', CallRaises), (''ID'', LookupRaises),
       (''id'', CallRaises), (''master_shape'', LookupRaises), (''connects'', LookupRaises),
       (''image_data'', LookupRaises), (''shapes'', LookupRaises)]]"

text \<open>A page (0) with one media item and two shapes: one with an image (1), one
  without (2) whose only child (3) has an image.\<close>

definition media_heap :: heap where
  "media_heap = heap_of
     [[(''name'', Attr (VStr ''Page-1'')), (''media'', Attr (VList [VBytes ''png''])),
       (''shapes'', Call (VList [VRef 1, VRef 2]))],
      [(''text'', Attr (VStr ''Photo'')), (''ID'', Attr (VInt 1)), (''image_data'', Attr (VBytes ''jpg''))],
      [(''text'', Attr (VStr ''Group'')), (''ID'', Attr (VInt 2)), (''shapes'', Attr (VList [VRef 3]))],
      [(''ID'', Attr (VInt 3)), (''image'', Attr (VBytes ''gif''))]]"

text \<open>What the accessor yields.\<close>

definition member_or :: "heap \<Rightarrow> pyval \<Rightarrow> string \<Rightarrow> pyval \<Rightarrow> pyval" where
  "member_or h obj attr_name dflt =
     (case lookup_attr h obj attr_name of Some (Attr v) \<Rightarrow> v | Some (Call v) \<Rightarrow> v | _ \<Rightarrow> dflt)"

text \<open>The identifier of line 301.\<close>

definition normalized_id :: "heap \<Rightarrow> pyval \<Rightarrow> pyval" where
  "normalized_id h shape =
     (if try_truthy h (member_or h shape ''ID'' VNone) = Some True
      then member_or h shape ''ID'' VNone else member_or h shape ''id'' VNone)"

text \<open>One of the conversions outside every \<^verbatim>\<open>try\<close> block raises: \<^verbatim>\<open>str\<close> of
  the text (line 295) or of the name (line 298), the truth test of the \<^verbatim>\<open>ID\<close>
  member (line 301), or \<^verbatim>\<open>str\<close> of the identifier in the log line of a shape with an
  image (line 319).\<close>

definition conversion_aborts :: "heap \<Rightarrow> pyval \<Rightarrow> bool" where
  "conversion_aborts h shape \<longleftrightarrow>
     try_str h (member_or h shape ''text'' (VStr [])) = None \<or>
     try_str h (member_or h shape ''name'' (VStr [])) = None \<or>
     try_truthy h (member_or h shape ''ID'' VNone) = None \<or>
     (extract_image_from_shape_cv h shape \<noteq> Some VNone \<and>
      try_str h (normalized_id h shape) = None)"

text \<open>No object of the store defines \<^verbatim>\<open>__bool__\<close> or \<^verbatim>\<open>__str__\<close>.\<close>

definition plain_store :: "heap \<Rightarrow> bool" where
  "plain_store h \<longleftrightarrow> (\<forall>a. map_of (h a) ''__bool__'' = None \<and> map_of (h a) ''__str__'' = None)"

text \<open>A shape (0) with three children: a shape with text (1), a shape (2) whose text
  is an object (3) whose \<^verbatim>\<open>__str__\<close> raises, and the first child again. A shape (4)
  whose master (5) has a name that raises on lookup. A shape (6) whose only member is
  an \<^verbatim>\<open>id\<close> that is an object (7) whose \<^verbatim>\<open>__bool__\<close> raises, and its parent (8)
  between two copies of the shape with text.\<close>

definition raising_heap :: heap where
  "raising_heap = heap_of
     [[(''text'', Attr (VStr ''Group'')), (''shapes'', Attr (VList [VRef 1, VRef 2, VRef 1]))],
      [(''text'', Attr (VStr ''A''))],
      [(''text'', Attr (VRef 3))],
      [(''__str__'', CallRaises)],
      [(''master_shape'', Attr (VRef 5))],
      [(''name'', LookupRaises)],
      [(''id'', Attr (VRef 7))],
      [(''__bool__'', CallRaises)],
      [(''shapes'', Attr (VList [VRef 1, VRef 6, VRef 1]))]]"

text \<open>The page of the specification's first example.\<close>

definition flow_page :: page_data where
  "flow_page =
     \<lparr>p_name = ''Flow'',
      p_shapes = [ShapeInfo ''Start'' [] (VStr ''1'') [] [] [] False,
                  ShapeInfo ''Process'' [] (VStr ''2'') [] [] [] False,
                  ShapeInfo ''End'' [] (VStr ''3'') [] [] [] False],
      p_connections = [(''1'', ''2''), (''2'', ''3'')],
      p_images_count = 0,
      p_page_media = []\<rparr>"

definition report_page :: page_data where
  "report_page =
     \<lparr>p_name = ''Report'',
      p_shapes = [ShapeInfo [] [] VNone ''Rectangle'' [] [] False,
                  ShapeInfo [] [] (VInt 5) [] [] [] False,
                  ShapeInfo ''Start'' ''Sheet.1'' (VInt 1) [] [] [] True],
      p_connections = [],
      p_images_count = 1,
      p_page_media = []\<rparr>"

definition id_only_page :: page_data where
  "id_only_page =
     \<lparr>p_name = ''Ids'',
      p_shapes = [ShapeInfo [] [] (VInt 5) [] [] [] False],
      p_connections = [],
      p_images_count = 0,
      p_page_media = []\<rparr>"

definition bucket_shapes :: "shape_info list" where
  "bucket_shapes =
     [ShapeInfo ''1. Staging and Finalization'' [] (VInt 1) [] [] [] False,
      ShapeInfo ''STAGING before finalization'' [] (VInt 2) [] [] [] False,
      ShapeInfo ''3 wrap-up'' [] (VInt 3) [] [] [] False,
      ShapeInfo ''Setup of staging'' [] (VInt 4) [] [] [] False,
      ShapeInfo ''Other'' [] (VInt 5) [] [] [] False]"

section \<open>Properties\<close>

declare extract_shape_info.simps [simp del]

subsection \<open>The accessor and what never raises\<close>

lemma get_attribute_value_eq:
  "get_attribute_value h obj attr_name dflt =
     Some (case lookup_attr h obj attr_name of
             Some (Attr v) \<Rightarrow> v
           | Some (Call v) \<Rightarrow> v
           | _ \<Rightarrow> dflt)"
  by (simp add: get_attribute_value_def get_attribute_value_try_def py_hasattr_def
      split: option.split attr.split)

text \<open>
  C7. The accessor never raises. It returns the default when the member is absent,
  when its lookup raises and when its invocation raises; it returns the result of
  the invocation when the member is invocable, and the member's value otherwise.
\<close>

theorem accessor_total_and_defensive:
  "get_attribute_value h obj attr_name dflt =
     Some (case lookup_attr h obj attr_name of
             None \<Rightarrow> dflt
           | Some LookupRaises \<Rightarrow> dflt
           | Some CallRaises \<Rightarrow> dflt
           | Some (Call v) \<Rightarrow> v
           | Some (Attr v) \<Rightarrow> v)"
  by (simp add: get_attribute_value_def get_attribute_value_try_def py_hasattr_def
      split: option.split attr.split)

lemma extract_connections_total: "\<exists>cs. extract_connections h shape = Some cs"
  by (simp add: extract_connections_def split: option.split)

lemma extract_image_total: "\<exists>v. extract_image_from_shape h shape = Some v"
  by (simp add: extract_image_from_shape_def split: option.split)

lemma shape_type_total: "\<exists>t. shape_type h shape = Some t"
  by (simp add: shape_type_def split: option.split)

lemma extract_media_total: "\<exists>m. extract_media_from_page h page = Some m"
  by (simp add: extract_media_from_page_def split: option.split)

text \<open>The normalizer always returns, and this is the record it returns.\<close>

lemma extract_shape_info_fields:
  "\<exists>t cs img.
     shape_type h shape = Some t \<and> extract_connections h shape = Some cs \<and>
     extract_image_from_shape h shape = Some img \<and>
     extract_shape_info h shape depth =
       Some (ShapeInfo
         (py_strip (py_str (case lookup_attr h shape ''text'' of
                              Some (Attr v) \<Rightarrow> v | Some (Call v) \<Rightarrow> v | _ \<Rightarrow> VStr [])))
         (py_str (case lookup_attr h shape ''name'' of
                    Some (Attr v) \<Rightarrow> v | Some (Call v) \<Rightarrow> v | _ \<Rightarrow> VStr []))
         (let upper_id = (case lookup_attr h shape ''ID'' of
                            Some (Attr v) \<Rightarrow> v | Some (Call v) \<Rightarrow> v | _ \<Rightarrow> VNone)
          in if py_truthy upper_id then upper_id
             else (case lookup_attr h shape ''id'' of
                     Some (Attr v) \<Rightarrow> v | Some (Call v) \<Rightarrow> v | _ \<Rightarrow> VNone))
         t
         (if depth < 5 then
            (case get_shapes_from_object h shape of
               None \<Rightarrow> []
             | Some sub_shapes \<Rightarrow>
                 collect_sub_shapes
                   (map (\<lambda>sub_shape. extract_shape_info h sub_shape (depth + 1)) sub_shapes) [])
          else [])
         cs (py_truthy img))"
proof -
  obtain t where t: "shape_type h shape = Some t"
    using shape_type_total by blast
  obtain cs where cs: "extract_connections h shape = Some cs"
    using extract_connections_total by blast
  obtain img where img: "extract_image_from_shape h shape = Some img"
    using extract_image_total by blast
  show ?thesis
    by (subst extract_shape_info.simps) (simp add: t cs img get_attribute_value_eq Let_def)
qed

lemma extract_shape_info_total: "\<exists>r. extract_shape_info h shape depth = Some r"
  using extract_shape_info_fields [of h shape depth] by blast


lemma all_normalized: "\<exists>rs. map (\<lambda>c. extract_shape_info h c d) cs = map Some rs"
proof (induction cs)
  case Nil
  then show ?case by simp
next
  case (Cons c cs)
  then obtain rs where rs: "map (\<lambda>c. extract_shape_info h c d) cs = map Some rs"
    by blast
  obtain r where "extract_shape_info h c d = Some r"
    using extract_shape_info_total by blast
  with rs have "map (\<lambda>c. extract_shape_info h c d) (c # cs) = map Some (r # rs)"
    by simp
  then show ?case by blast
qed



subsection \<open>The depth bound\<close>



subsection \<open>Retention of sub-shapes and of top-level shapes\<close>

lemma process_shapes_all:
  "map (\<lambda>s. extract_shape_info h s 0) shapes = map Some rs \<Longrightarrow>
   p_shapes (process_shapes h shapes pd) = p_shapes pd @ rs \<and>
   p_page_media (process_shapes h shapes pd) = p_page_media pd \<and>
   p_name (process_shapes h shapes pd) = p_name pd \<and>
   p_connections (process_shapes h shapes pd) = p_connections pd @ concat (map s_connections rs) \<and>
   p_images_count (process_shapes h shapes pd) =
     p_images_count pd + int (length (filter s_has_image rs))"
proof (induction shapes arbitrary: pd rs)
  case Nil
  then show ?case by simp
next
  case (Cons s shapes)
  then obtain r rs' where rs: "rs = r # rs'" and r: "extract_shape_info h s 0 = Some r"
    and rest: "map (\<lambda>s. extract_shape_info h s 0) shapes = map Some rs'"
    by (cases rs) auto
  show ?case using Cons.IH [OF rest] by (simp add: rs r)
qed

lemma extract_page_data_shapes:
  assumes "get_shapes_from_object h page = Some tops"
  shows "\<exists>pd rs m. extract_page_data h page = Some pd \<and>
           map (\<lambda>s. extract_shape_info h s 0) tops = map Some rs \<and>
           extract_media_from_page h page = Some m \<and>
           p_shapes pd = rs \<and> p_page_media pd = m \<and>
           p_connections pd = concat (map s_connections rs) \<and>
           p_images_count pd = int (length m) + int (length (filter s_has_image rs))"
proof -
  obtain rs where rs: "map (\<lambda>s. extract_shape_info h s 0) tops = map Some rs"
    using all_normalized by blast
  obtain m where m: "extract_media_from_page h page = Some m"
    using extract_media_total by blast
  show ?thesis using process_shapes_all [OF rs] assms
    by (simp add: extract_page_data_def get_attribute_value_eq m rs)
qed




subsection \<open>The Connection Extractor\<close>

lemma gav_member: "get_attribute_value h obj n VNone = Some (member_value h obj n)"
  by (simp add: get_attribute_value_eq member_value_def)

lemma scan_connects_eq:
  "scan_connects h entries ids =
     Some ((case filter (\<lambda>e. py_truthy (member_value h e ''from_shape'')) entries of
              [] \<Rightarrow> fst ids
            | e # es \<Rightarrow> member_value h (member_value h (last (e # es)) ''from_shape'') ''ID''),
           (case filter (\<lambda>e. py_truthy (member_value h e ''to_shape'')) entries of
              [] \<Rightarrow> snd ids
            | e # es \<Rightarrow> member_value h (member_value h (last (e # es)) ''to_shape'') ''ID''))"
proof (induction entries arbitrary: ids)
  case Nil
  then show ?case by simp
next
  case (Cons c rest)
  show ?case
    by (simp add: gav_member Cons.IH split: list.split)
qed

lemma scan_connects_last:
  "scan_connects h entries (VNone, VNone) =
     Some (last_end_id h entries ''from_shape'', last_end_id h entries ''to_shape'')"
  by (simp add: scan_connects_eq last_end_id_def split: list.split)

lemma last_end_id_Nil: "last_end_id h [] end_name = VNone"
  by (simp add: last_end_id_def)

lemma connects_list:
  assumes "lookup_attr h shape ''connects'' = Some (Attr (VList entries)) \<or>
           lookup_attr h shape ''connects'' = Some (Call (VList entries))"
  shows "connections_from_connects h shape =
     Some (if py_truthy (last_end_id h entries ''from_shape'') \<and>
              py_truthy (last_end_id h entries ''to_shape'')
           then [(py_str (last_end_id h entries ''from_shape''),
                  py_str (last_end_id h entries ''to_shape''))]
           else [])"
proof (cases entries)
  case Nil
  then show ?thesis using assms
    by (auto simp: connections_from_connects_def py_hasattr_def get_attribute_value_eq last_end_id_Nil)
next
  case (Cons e es)
  have "connections_from_connects h shape =
     Option.bind (scan_connects h entries (VNone, VNone))
       (\<lambda>ids. Some (if py_truthy (fst ids) \<and> py_truthy (snd ids)
               then [(py_str (fst ids), py_str (snd ids))] else []))"
    using assms Cons
    by (auto simp: connections_from_connects_def py_hasattr_def get_attribute_value_eq)
  then show ?thesis by (simp add: scan_connects_last)
qed

lemma connects_at_most_one: "connections_from_connects h shape = Some a \<Longrightarrow> length a \<le> 1"
  by (auto simp: connections_from_connects_def Option.bind_eq_Some_conv split: if_splits)

lemma one_d_at_most_one: "connections_from_one_d h shape = Some b \<Longrightarrow> length b \<le> 1"
  by (auto simp: connections_from_one_d_def Option.bind_eq_Some_conv split: if_splits)

text \<open>
  C3, as amended. The extractor never raises. Its result is what Strategy A appended
  followed by what Strategy B appended, each at most one pair. A failure in Strategy
  A yields the empty result; a failure in Strategy B yields what Strategy A appended.
  On a connects list (a member or the result of a call), Strategy A scans every entry and holds, for each end on its
  own, the identifier of the endpoint of the last entry whose endpoint is truthy; it
  appends \<open>(str(from), str(to))\<close> exactly when both identifiers are truthy.
\<close>

theorem connection_extractor:
  "extract_connections h shape =
     Some (case connections_from_connects h shape of
             None \<Rightarrow> []
           | Some a \<Rightarrow> a @ (case connections_from_one_d h shape of None \<Rightarrow> [] | Some b \<Rightarrow> b)) \<and>
   (\<forall>a. connections_from_connects h shape = Some a \<longrightarrow> length a \<le> 1) \<and>
   (\<forall>b. connections_from_one_d h shape = Some b \<longrightarrow> length b \<le> 1) \<and>
   (lookup_attr h shape ''connects'' = Some (Attr (VList entries)) \<or>
    lookup_attr h shape ''connects'' = Some (Call (VList entries)) \<longrightarrow>
      connections_from_connects h shape =
        Some (if py_truthy (last_end_id h entries ''from_shape'') \<and>
                 py_truthy (last_end_id h entries ''to_shape'')
              then [(py_str (last_end_id h entries ''from_shape''),
                     py_str (last_end_id h entries ''to_shape''))]
              else []))"
proof (intro conjI allI impI)
  show "extract_connections h shape =
     Some (case connections_from_connects h shape of
             None \<Rightarrow> []
           | Some a \<Rightarrow> a @ (case connections_from_one_d h shape of None \<Rightarrow> [] | Some b \<Rightarrow> b))"
    by (simp add: extract_connections_def split: option.split)
next
  fix a assume "connections_from_connects h shape = Some a"
  then show "length a \<le> 1" by (rule connects_at_most_one)
next
  fix b assume "connections_from_one_d h shape = Some b"
  then show "length b \<le> 1" by (rule one_d_at_most_one)
next
  assume "lookup_attr h shape ''connects'' = Some (Attr (VList entries)) \<or>
    lookup_attr h shape ''connects'' = Some (Call (VList entries))"
  then show "connections_from_connects h shape =
        Some (if py_truthy (last_end_id h entries ''from_shape'') \<and>
                 py_truthy (last_end_id h entries ''to_shape'')
              then [(py_str (last_end_id h entries ''from_shape''),
                     py_str (last_end_id h entries ''to_shape''))]
              else [])"
    by (rule connects_list)
qed

text \<open>Two entries: the second one's endpoints win, and Strategy A's pair comes
  first.\<close>

theorem connection_extractor_witness:
  "lookup_attr connector_heap (VRef 0) ''connects'' = Some (Attr (VList [VRef 1, VRef 2])) \<and>
   last_end_id connector_heap [VRef 1, VRef 2] ''from_shape'' = VInt 2 \<and>
   last_end_id connector_heap [VRef 1, VRef 2] ''to_shape'' = VInt 3 \<and>
   connections_from_connects connector_heap (VRef 0) = Some [(''2'', ''3'')] \<and>
   connections_from_one_d connector_heap (VRef 0) = Some [(''1'', ''2'')] \<and>
   extract_connections connector_heap (VRef 0) = Some [(''2'', ''3''), (''1'', ''2'')]"
proof -
  have l: "lookup_attr connector_heap (VRef 0) ''connects'' = Some (Attr (VList [VRef 1, VRef 2]))"
    by (simp add: connector_heap_def heap_of_def lookup_attr_def)
  have f: "last_end_id connector_heap [VRef 1, VRef 2] ''from_shape'' = VInt 2"
    by (simp add: connector_heap_def heap_of_def lookup_attr_def member_value_def last_end_id_def)
  have t: "last_end_id connector_heap [VRef 1, VRef 2] ''to_shape'' = VInt 3"
    by (simp add: connector_heap_def heap_of_def lookup_attr_def member_value_def last_end_id_def)
  have b: "connections_from_one_d connector_heap (VRef 0) = Some [(''1'', ''2'')]"
    by code_simp
  have e: "extract_connections connector_heap (VRef 0) = Some [(''2'', ''3''), (''1'', ''2'')]"
    by code_simp
  have a: "connections_from_connects connector_heap (VRef 0) = Some [(''2'', ''3'')]"
    by code_simp
  from connection_extractor [of connector_heap "VRef 0" "[VRef 1, VRef 2]"] l f t b e a
  show ?thesis by simp
qed

text \<open>The connector whose \<^verbatim>\<open>one_d\<close> property raises: Strategy B fails, and the
  result is not empty.\<close>

theorem connection_extractor_counterexample:
  "connections_from_one_d connector_heap (VRef 6) = None \<and>
   extract_connections connector_heap (VRef 6) = Some [(''1'', ''2'')]"
proof
  show "connections_from_one_d connector_heap (VRef 6) = None"
    by (simp add: connector_heap_def heap_of_def lookup_attr_def py_hasattr_def
        connections_from_one_d_def)
  show "extract_connections connector_heap (VRef 6) = Some [(''1'', ''2'')]"
    by code_simp
qed

subsection \<open>Failures inside the Shape Normalizer\<close>

declare extract_shape_info_cv.simps [simp del]

lemma gav_member_or: "get_attribute_value h obj n d = Some (member_or h obj n d)"
  by (simp add: get_attribute_value_eq member_or_def)

lemma try_truthy_None [simp]: "try_truthy h VNone = Some False"
  by (simp add: try_truthy_def lookup_attr_def)

lemma probe_member_cv_truthy:
  "probe_member_cv h obj n lg = Some v \<Longrightarrow> try_truthy h v = Some (v \<noteq> VNone)"
  by (auto simp: probe_member_cv_def gav_member_or Option.bind_eq_Some_conv split: if_splits)

lemma probe_nested_cv_truthy:
  "probe_nested_cv h shape outer inner = Some v \<Longrightarrow> try_truthy h v = Some (v \<noteq> VNone)"
  by (auto simp: probe_nested_cv_def gav_member_or Option.bind_eq_Some_conv
      dest: probe_member_cv_truthy split: if_splits)

lemma image_try_cv_truthy:
  assumes "extract_image_from_shape_try_cv h shape = Some v"
  shows "try_truthy h v = Some (v \<noteq> VNone)"
proof -
  from assms obtain shape_id p1 where
    p1: "probe_member_cv h shape ''image_data'' (Some shape_id) = Some p1"
    and r1: "(if p1 \<noteq> VNone then Some p1 else
               Option.bind (probe_member_cv h shape ''image'' (Some shape_id)) (\<lambda>image.
               if image \<noteq> VNone then Some image else
               Option.bind (probe_member_cv h shape ''file'' (Some shape_id)) (\<lambda>file_data.
               if file_data \<noteq> VNone then Some file_data else
               Option.bind (probe_nested_cv h shape ''master_shape'' ''image_data'') (\<lambda>master_image.
               if master_image \<noteq> VNone then Some master_image else
               Option.bind (probe_nested_cv h shape ''fill'' ''image'') (\<lambda>fill_image.
               if fill_image \<noteq> VNone then Some fill_image else
               Option.bind (py_hasattr h shape ''cells'') (\<lambda>cells. Some VNone)))))) = Some v"
    unfolding extract_image_from_shape_try_cv_def
    by (auto simp: Option.bind_eq_Some_conv)
  show ?thesis
  proof (cases "p1 \<noteq> VNone")
    case True
    with r1 p1 show ?thesis by (auto dest: probe_member_cv_truthy)
  next
    case n1: False
    with r1 obtain p2 where p2: "probe_member_cv h shape ''image'' (Some shape_id) = Some p2"
      and r2: "(if p2 \<noteq> VNone then Some p2 else
               Option.bind (probe_member_cv h shape ''file'' (Some shape_id)) (\<lambda>file_data.
               if file_data \<noteq> VNone then Some file_data else
               Option.bind (probe_nested_cv h shape ''master_shape'' ''image_data'') (\<lambda>master_image.
               if master_image \<noteq> VNone then Some master_image else
               Option.bind (probe_nested_cv h shape ''fill'' ''image'') (\<lambda>fill_image.
               if fill_image \<noteq> VNone then Some fill_image else
               Option.bind (py_hasattr h shape ''cells'') (\<lambda>cells. Some VNone))))) = Some v"
      by (auto simp: Option.bind_eq_Some_conv)
    show ?thesis
    proof (cases "p2 \<noteq> VNone")
      case True
      with r2 p2 show ?thesis by (auto dest: probe_member_cv_truthy)
    next
      case n2: False
      with r2 obtain p3 where p3: "probe_member_cv h shape ''file'' (Some shape_id) = Some p3"
        and r3: "(if p3 \<noteq> VNone then Some p3 else
               Option.bind (probe_nested_cv h shape ''master_shape'' ''image_data'') (\<lambda>master_image.
               if master_image \<noteq> VNone then Some master_image else
               Option.bind (probe_nested_cv h shape ''fill'' ''image'') (\<lambda>fill_image.
               if fill_image \<noteq> VNone then Some fill_image else
               Option.bind (py_hasattr h shape ''cells'') (\<lambda>cells. Some VNone)))) = Some v"
        by (auto simp: Option.bind_eq_Some_conv)
      show ?thesis
      proof (cases "p3 \<noteq> VNone")
        case True
        with r3 p3 show ?thesis by (auto dest: probe_member_cv_truthy)
      next
        case n3: False
        with r3 obtain p4 where p4: "probe_nested_cv h shape ''master_shape'' ''image_data'' = Some p4"
          and r4: "(if p4 \<noteq> VNone then Some p4 else
               Option.bind (probe_nested_cv h shape ''fill'' ''image'') (\<lambda>fill_image.
               if fill_image \<noteq> VNone then Some fill_image else
               Option.bind (py_hasattr h shape ''cells'') (\<lambda>cells. Some VNone))) = Some v"
          by (auto simp: Option.bind_eq_Some_conv)
        show ?thesis
        proof (cases "p4 \<noteq> VNone")
          case True
          with r4 p4 show ?thesis by (auto dest: probe_nested_cv_truthy)
        next
          case n4: False
          with r4 obtain p5 where p5: "probe_nested_cv h shape ''fill'' ''image'' = Some p5"
            and r5: "(if p5 \<noteq> VNone then Some p5 else
               Option.bind (py_hasattr h shape ''cells'') (\<lambda>cells. Some VNone)) = Some v"
            by (auto simp: Option.bind_eq_Some_conv)
          show ?thesis
          proof (cases "p5 \<noteq> VNone")
            case True
            with r5 p5 show ?thesis by (auto dest: probe_nested_cv_truthy)
          next
            case False
            with r5 have "v = VNone" by (auto simp: Option.bind_eq_Some_conv)
            then show ?thesis by simp
          qed
        qed
      qed
    qed
  qed
qed

lemma image_cv_truthy:
  "extract_image_from_shape_cv h shape = Some v \<Longrightarrow> try_truthy h v = Some (v \<noteq> VNone)"
  by (auto simp: extract_image_from_shape_cv_def dest: image_try_cv_truthy split: option.splits)

lemma extract_connections_cv_total: "\<exists>cs. extract_connections_cv h shape = Some cs"
  by (simp add: extract_connections_cv_def split: option.split)

lemma extract_image_cv_total: "\<exists>v. extract_image_from_shape_cv h shape = Some v"
  by (simp add: extract_image_from_shape_cv_def split: option.split)

lemma shape_type_cv_total: "\<exists>t. shape_type_cv h shape = Some t"
  by (simp add: shape_type_cv_def split: option.split)

lemma extract_shape_info_cv_fields:
  "\<exists>t cs img.
     shape_type_cv h shape = Some t \<and> extract_connections_cv h shape = Some cs \<and>
     extract_image_from_shape_cv h shape = Some img \<and>
     extract_shape_info_cv h shape depth =
       (if conversion_aborts h shape then None
        else Some (ShapeInfo
          (py_strip (the (try_str h (member_or h shape ''text'' (VStr [])))))
          (the (try_str h (member_or h shape ''name'' (VStr []))))
          (normalized_id h shape)
          t
          (if depth < 5 then
             (case get_shapes_from_object_cv h shape of
                None \<Rightarrow> []
              | Some sub_shapes \<Rightarrow>
                  collect_sub_shapes_cv h
                    (map (\<lambda>sub_shape. extract_shape_info_cv h sub_shape (depth + 1)) sub_shapes) [])
           else [])
          cs (img \<noteq> VNone)))"
proof -
  obtain t where t: "shape_type_cv h shape = Some t"
    using shape_type_cv_total by blast
  obtain cs where cs: "extract_connections_cv h shape = Some cs"
    using extract_connections_cv_total by blast
  obtain img where img: "extract_image_from_shape_cv h shape = Some img"
    using extract_image_cv_total by blast
  have it: "try_truthy h img = Some (img \<noteq> VNone)"
    using img by (rule image_cv_truthy)
  show ?thesis
    by (subst extract_shape_info_cv.simps)
       (auto simp: t cs img it gav_member_or conversion_aborts_def normalized_id_def
          Option.bind_eq_None_conv split: Option.bind_splits)
qed

text \<open>On a store whose objects define neither \<^verbatim>\<open>__bool__\<close> nor \<^verbatim>\<open>__str__\<close> the
  functions of the two sections agree.\<close>

lemma plain_truthy: "plain_store h \<Longrightarrow> try_truthy h v = Some (py_truthy v)"
  by (cases v) (simp_all add: plain_store_def try_truthy_def lookup_attr_def)

lemma plain_str: "plain_store h \<Longrightarrow> try_str h v = Some (py_str v)"
  by (cases v) (simp_all add: plain_store_def try_str_def lookup_attr_def)

lemma plain_candidate:
  "plain_store h \<Longrightarrow> shapes_of_candidate_cv h obj n = shapes_of_candidate h obj n"
  by (auto simp: shapes_of_candidate_cv_def shapes_of_candidate_def plain_truthy
      intro!: Option.bind_cong split: option.split attr.split)

lemma plain_get_shapes:
  "plain_store h \<Longrightarrow> get_shapes_from_object_cv h obj = get_shapes_from_object h obj"
  by (simp add: get_shapes_from_object_cv_def get_shapes_from_object_def plain_candidate)

lemma plain_scan:
  "plain_store h \<Longrightarrow> scan_connects_cv h entries ids = scan_connects h entries ids"
  by (induction entries arbitrary: ids) (simp_all add: plain_truthy gav_member_or)

lemma plain_pair:
  "plain_store h \<Longrightarrow> pair_of_ids h f t =
     Some (if py_truthy f \<and> py_truthy t then [(py_str f, py_str t)] else [])"
  by (simp add: pair_of_ids_def plain_truthy plain_str)

lemma plain_connects:
  "plain_store h \<Longrightarrow> connections_from_connects_cv h shape = connections_from_connects h shape"
  by (simp add: connections_from_connects_cv_def connections_from_connects_def plain_truthy
      plain_scan plain_pair cong: Option.bind_cong if_cong)

lemma plain_one_d:
  "plain_store h \<Longrightarrow> connections_from_one_d_cv h shape = connections_from_one_d h shape"
  by (auto simp: connections_from_one_d_cv_def connections_from_one_d_def plain_truthy
      plain_pair gav_member_or intro!: Option.bind_cong)

lemma plain_connections:
  "plain_store h \<Longrightarrow> extract_connections_cv h shape = extract_connections h shape"
  by (simp add: extract_connections_cv_def extract_connections_def plain_connects plain_one_d
      split: option.split)

lemma plain_probe_member:
  "plain_store h \<Longrightarrow> probe_member_cv h obj n lg = probe_member h obj n"
  by (cases lg) (auto simp: probe_member_cv_def probe_member_def plain_truthy plain_str
      gav_member_or intro!: Option.bind_cong)

lemma plain_probe_nested:
  "plain_store h \<Longrightarrow> probe_nested_cv h shape outer inner = probe_nested h shape outer inner"
  by (auto simp: probe_nested_cv_def probe_nested_def plain_truthy plain_probe_member
      gav_member_or intro!: Option.bind_cong)

lemma probe_member_result: "probe_member h obj n = Some v \<Longrightarrow> py_truthy v = (v \<noteq> VNone)"
  by (auto simp: probe_member_def gav_member_or Option.bind_eq_Some_conv split: if_splits)

lemma probe_nested_result: "probe_nested h shape a b = Some v \<Longrightarrow> py_truthy v = (v \<noteq> VNone)"
  by (auto simp: probe_nested_def gav_member_or Option.bind_eq_Some_conv
      dest: probe_member_result split: if_splits)

lemma plain_shape_type:
  "plain_store h \<Longrightarrow> shape_type_cv h shape = shape_type h shape"
  by (auto simp: shape_type_cv_def shape_type_try_cv_def shape_type_def plain_truthy plain_str
      gav_member_or split: option.splits)

lemma chain_step:
  assumes "\<And>v. p = Some v \<Longrightarrow> py_truthy v = (v \<noteq> VNone)"
  shows "Option.bind p (\<lambda>x. if x \<noteq> VNone then Some x else rest) =
         Option.bind p (\<lambda>x. if py_truthy x then Some x else rest)"
  using assms by (cases p) auto

lemma chain_member:
  "Option.bind (probe_member h obj n) (\<lambda>x. if x \<noteq> VNone then Some x else rest) =
   Option.bind (probe_member h obj n) (\<lambda>x. if py_truthy x then Some x else rest)"
  by (rule chain_step) (rule probe_member_result)

lemma chain_nested:
  "Option.bind (probe_nested h shape a b) (\<lambda>x. if x \<noteq> VNone then Some x else rest) =
   Option.bind (probe_nested h shape a b) (\<lambda>x. if py_truthy x then Some x else rest)"
  by (rule chain_step) (rule probe_nested_result)

lemma bind_if_Some: "Option.bind (if c then Some a else Some b) (\<lambda>x. k) = k"
  by simp

lemma plain_image_try:
  assumes "plain_store h"
  shows "extract_image_from_shape_try_cv h shape = extract_image_from_shape_try h shape"
  unfolding extract_image_from_shape_try_cv_def extract_image_from_shape_try_def
    plain_truthy [OF assms] plain_str [OF assms] plain_probe_member [OF assms]
    plain_probe_nested [OF assms] chain_member chain_nested
    Option.bind.bind_lunit bind_if_Some
  by (rule refl)

lemma plain_image:
  "plain_store h \<Longrightarrow> extract_image_from_shape_cv h shape = extract_image_from_shape h shape"
  by (simp add: extract_image_from_shape_cv_def extract_image_from_shape_def plain_image_try)

lemma plain_keeps:
  "plain_store h \<Longrightarrow> keeps_sub_shape_cv h r = Some (keeps_sub_shape r)"
  by (simp add: keeps_sub_shape_cv_def keeps_sub_shape_def plain_truthy)

lemma plain_collect:
  "plain_store h \<Longrightarrow> collect_sub_shapes_cv h rs acc = collect_sub_shapes rs acc"
  by (induction rs acc rule: collect_sub_shapes.induct) (simp_all add: plain_keeps)

lemma plain_extract:
  assumes p: "plain_store h"
  shows "extract_shape_info_cv h shape depth = extract_shape_info h shape depth"
proof (induction "nat (5 - depth)" arbitrary: shape depth rule: less_induct)
  case less
  have kids: "(\<lambda>s. extract_shape_info_cv h s (depth + 1)) = (\<lambda>s. extract_shape_info h s (depth + 1))"
    if "depth < 5"
    using that by (intro ext less) simp
  obtain t cs img where t: "shape_type_cv h shape = Some t"
    and cs: "extract_connections_cv h shape = Some cs"
    and img: "extract_image_from_shape_cv h shape = Some img"
    and cv: "extract_shape_info_cv h shape depth =
       (if conversion_aborts h shape then None
        else Some (ShapeInfo
          (py_strip (the (try_str h (member_or h shape ''text'' (VStr [])))))
          (the (try_str h (member_or h shape ''name'' (VStr []))))
          (normalized_id h shape)
          t
          (if depth < 5 then
             (case get_shapes_from_object_cv h shape of
                None \<Rightarrow> []
              | Some sub_shapes \<Rightarrow>
                  collect_sub_shapes_cv h
                    (map (\<lambda>sub_shape. extract_shape_info_cv h sub_shape (depth + 1)) sub_shapes) [])
           else [])
          cs (img \<noteq> VNone)))"
    using extract_shape_info_cv_fields [of h shape depth] by blast
  have t': "shape_type h shape = Some t" using t by (simp add: plain_shape_type p)
  have cs': "extract_connections h shape = Some cs" using cs by (simp add: plain_connections p)
  have img': "extract_image_from_shape h shape = Some img" using img by (simp add: plain_image p)
  have it: "py_truthy img = (img \<noteq> VNone)"
    using image_cv_truthy [OF img] by (simp add: plain_truthy p)
  have na: "\<not> conversion_aborts h shape"
    by (simp add: conversion_aborts_def plain_truthy plain_str p)
  have subs: "(if depth < 5 then
             (case get_shapes_from_object_cv h shape of
                None \<Rightarrow> []
              | Some sub_shapes \<Rightarrow>
                  collect_sub_shapes_cv h
                    (map (\<lambda>sub_shape. extract_shape_info_cv h sub_shape (depth + 1)) sub_shapes) [])
           else []) =
         (if depth < 5 then
            (case get_shapes_from_object h shape of
               None \<Rightarrow> []
             | Some sub_shapes \<Rightarrow>
                 collect_sub_shapes
                   (map (\<lambda>sub_shape. extract_shape_info h sub_shape (depth + 1)) sub_shapes) [])
          else [])"
    by (cases "depth < 5") (simp_all add: kids plain_collect plain_get_shapes p split: option.split)
  show ?case
    unfolding cv subs
    by (subst extract_shape_info.simps)
       (simp add: na t' cs' img' it gav_member_or plain_truthy plain_str p normalized_id_def)
qed

lemma collect_sub_shapes_cv_test:
  "\<forall>x \<in> set rs. keeps_sub_shape_cv h x \<noteq> None \<Longrightarrow> keeps_sub_shape_cv h c = None \<Longrightarrow>
   collect_sub_shapes_cv h (map Some rs @ Some c # rest) acc =
     acc @ filter (\<lambda>x. keeps_sub_shape_cv h x = Some True) rs"
  by (induction rs arbitrary: acc) auto

lemma collect_sub_shapes_cv_stop:
  "\<forall>x \<in> set rs. keeps_sub_shape_cv h x \<noteq> None \<Longrightarrow>
   collect_sub_shapes_cv h (map Some rs @ None # rest) acc =
     acc @ filter (\<lambda>x. keeps_sub_shape_cv h x = Some True) rs"
  by (induction rs arbitrary: acc) auto

text \<open>
  C6, as amended. The normalizer returns a complete record unless one of the
  conversions outside every \<^verbatim>\<open>try\<close> block raises (\<^verbatim>\<open>str\<close> of the text or of the
  name, the truth test of the \<^verbatim>\<open>ID\<close> member, \<^verbatim>\<open>str\<close> of the identifier in the log
  line of a shape with an image); then the whole record is aborted. Every other
  failure is contained. A failed read of the text or of the name leaves that field
  empty, and a failed read of both identifier members leaves the id absent. A failed
  read of the master or of the master's name, and any failure inside the type block,
  leaves the type empty. A failed image probe leaves has_image false, and a failed
  Collection Normalizer leaves sub_shapes empty. A failure of Strategy A leaves
  connections empty, and a failure of Strategy B leaves in connections what Strategy A
  appended. A child whose normalization is aborted, or whose retention test raises,
  ends the loop over the children and leaves in sub_shapes the children retained
  before it.
\<close>

theorem normalizer_failure_containment:
  "(extract_shape_info_cv h shape depth = None \<longleftrightarrow> conversion_aborts h shape) \<and>
   (\<forall>r. extract_shape_info_cv h shape depth = Some r \<longrightarrow>
      (get_attribute_value_try h shape ''text'' (VStr []) = None \<longrightarrow> s_text r = []) \<and>
      (get_attribute_value_try h shape ''name'' (VStr []) = None \<longrightarrow> s_name r = []) \<and>
      (get_attribute_value_try h shape ''ID'' VNone = None \<and>
       get_attribute_value_try h shape ''id'' VNone = None \<longrightarrow> s_id r = VNone) \<and>
      (get_attribute_value_try h shape ''master_shape'' VNone = None \<longrightarrow> s_type r = []) \<and>
      (get_attribute_value_try h (member_or h shape ''master_shape'' VNone) ''name'' VNone = None
         \<longrightarrow> s_type r = []) \<and>
      (shape_type_try_cv h shape = None \<longrightarrow> s_type r = []) \<and>
      (connections_from_connects_cv h shape = None \<longrightarrow> s_connections r = []) \<and>
      (\<forall>a. connections_from_connects_cv h shape = Some a \<and>
           connections_from_one_d_cv h shape = None \<longrightarrow> s_connections r = a) \<and>
      (extract_image_from_shape_try_cv h shape = None \<longrightarrow> \<not> s_has_image r) \<and>
      (get_shapes_from_object_cv h shape = None \<longrightarrow> s_sub_shapes r = []) \<and>
      (\<forall>before child after rs.
         depth < 5 \<and> get_shapes_from_object_cv h shape = Some (before @ child # after) \<and>
         map (\<lambda>x. extract_shape_info_cv h x (depth + 1)) before = map Some rs \<and>
         (\<forall>x \<in> set rs. keeps_sub_shape_cv h x \<noteq> None) \<and>
         extract_shape_info_cv h child (depth + 1) = None \<longrightarrow>
         s_sub_shapes r = filter (\<lambda>x. keeps_sub_shape_cv h x = Some True) rs) \<and>
      (\<forall>before child after rs c.
         depth < 5 \<and> get_shapes_from_object_cv h shape = Some (before @ child # after) \<and>
         map (\<lambda>x. extract_shape_info_cv h x (depth + 1)) before = map Some rs \<and>
         (\<forall>x \<in> set rs. keeps_sub_shape_cv h x \<noteq> None) \<and>
         extract_shape_info_cv h child (depth + 1) = Some c \<and> keeps_sub_shape_cv h c = None \<longrightarrow>
         s_sub_shapes r = filter (\<lambda>x. keeps_sub_shape_cv h x = Some True) rs))"
proof -
  have try_None: "\<And>obj n d. get_attribute_value_try h obj n d = None \<Longrightarrow> member_or h obj n d = d"
    by (auto simp: get_attribute_value_try_def py_hasattr_def member_or_def
        split: option.splits attr.splits)
  obtain t cs img where t: "shape_type_cv h shape = Some t"
    and cs: "extract_connections_cv h shape = Some cs"
    and img: "extract_image_from_shape_cv h shape = Some img"
    and cv: "extract_shape_info_cv h shape depth =
       (if conversion_aborts h shape then None
        else Some (ShapeInfo
          (py_strip (the (try_str h (member_or h shape ''text'' (VStr [])))))
          (the (try_str h (member_or h shape ''name'' (VStr []))))
          (normalized_id h shape)
          t
          (if depth < 5 then
             (case get_shapes_from_object_cv h shape of
                None \<Rightarrow> []
              | Some sub_shapes \<Rightarrow>
                  collect_sub_shapes_cv h
                    (map (\<lambda>sub_shape. extract_shape_info_cv h sub_shape (depth + 1)) sub_shapes) [])
           else [])
          cs (img \<noteq> VNone)))"
    using extract_shape_info_cv_fields [of h shape depth] by blast
  have str_empty: "try_str h (VStr []) = Some []"
    by (simp add: try_str_def lookup_attr_def py_str_def)
  have c_text: "get_attribute_value_try h shape ''text'' (VStr []) = None \<Longrightarrow>
      py_strip (the (try_str h (member_or h shape ''text'' (VStr [])))) = []"
    by (drule try_None) (simp add: str_empty py_strip_def)
  have c_name: "get_attribute_value_try h shape ''name'' (VStr []) = None \<Longrightarrow>
      the (try_str h (member_or h shape ''name'' (VStr []))) = []"
    by (drule try_None) (simp add: str_empty)
  have c_id: "get_attribute_value_try h shape ''ID'' VNone = None \<Longrightarrow>
      get_attribute_value_try h shape ''id'' VNone = None \<Longrightarrow> normalized_id h shape = VNone"
    by (drule try_None, drule try_None) (simp add: normalized_id_def)
  have c_type_try: "shape_type_try_cv h shape = None \<Longrightarrow> t = []"
    using t by (simp add: shape_type_cv_def)
  have c_type_master: "get_attribute_value_try h shape ''master_shape'' VNone = None \<Longrightarrow> t = []"
    using t by (drule_tac try_None)
      (simp add: shape_type_cv_def shape_type_try_cv_def gav_member_or split: option.splits)
  have c_type_name:
    "get_attribute_value_try h (member_or h shape ''master_shape'' VNone) ''name'' VNone = None
       \<Longrightarrow> t = []"
    using t by (drule_tac try_None)
      (auto simp: shape_type_cv_def shape_type_try_cv_def gav_member_or
        Option.bind_eq_Some_conv split: option.splits if_splits)
  have c_conn_a: "connections_from_connects_cv h shape = None \<Longrightarrow> cs = []"
    using cs by (simp add: extract_connections_cv_def)
  have c_conn_b: "\<And>a. connections_from_connects_cv h shape = Some a \<Longrightarrow>
      connections_from_one_d_cv h shape = None \<Longrightarrow> cs = a"
    using cs by (simp add: extract_connections_cv_def)
  have c_img: "extract_image_from_shape_try_cv h shape = None \<Longrightarrow> img = VNone"
    using img by (auto simp: extract_image_from_shape_cv_def)
  have c_stop: "\<And>before child after rs.
      depth < 5 \<Longrightarrow> get_shapes_from_object_cv h shape = Some (before @ child # after) \<Longrightarrow>
      map (\<lambda>x. extract_shape_info_cv h x (depth + 1)) before = map Some rs \<Longrightarrow>
      \<forall>x \<in> set rs. keeps_sub_shape_cv h x \<noteq> None \<Longrightarrow>
      extract_shape_info_cv h child (depth + 1) = None \<Longrightarrow>
      (if depth < 5 then
             (case get_shapes_from_object_cv h shape of
                None \<Rightarrow> []
              | Some sub_shapes \<Rightarrow>
                  collect_sub_shapes_cv h
                    (map (\<lambda>sub_shape. extract_shape_info_cv h sub_shape (depth + 1)) sub_shapes) [])
           else []) = filter (\<lambda>x. keeps_sub_shape_cv h x = Some True) rs"
    by (simp add: collect_sub_shapes_cv_stop)
  have c_test: "\<And>before child after rs c.
      depth < 5 \<Longrightarrow> get_shapes_from_object_cv h shape = Some (before @ child # after) \<Longrightarrow>
      map (\<lambda>x. extract_shape_info_cv h x (depth + 1)) before = map Some rs \<Longrightarrow>
      \<forall>x \<in> set rs. keeps_sub_shape_cv h x \<noteq> None \<Longrightarrow>
      extract_shape_info_cv h child (depth + 1) = Some c \<Longrightarrow> keeps_sub_shape_cv h c = None \<Longrightarrow>
      (if depth < 5 then
             (case get_shapes_from_object_cv h shape of
                None \<Rightarrow> []
              | Some sub_shapes \<Rightarrow>
                  collect_sub_shapes_cv h
                    (map (\<lambda>sub_shape. extract_shape_info_cv h sub_shape (depth + 1)) sub_shapes) [])
           else []) = filter (\<lambda>x. keeps_sub_shape_cv h x = Some True) rs"
    by (simp add: collect_sub_shapes_cv_test)
  have abort: "extract_shape_info_cv h shape depth = None \<longleftrightarrow> conversion_aborts h shape"
    by (simp add: cv)
  have contain: "extract_shape_info_cv h shape depth = Some r \<Longrightarrow>
      (get_attribute_value_try h shape ''text'' (VStr []) = None \<longrightarrow> s_text r = []) \<and>
      (get_attribute_value_try h shape ''name'' (VStr []) = None \<longrightarrow> s_name r = []) \<and>
      (get_attribute_value_try h shape ''ID'' VNone = None \<and>
       get_attribute_value_try h shape ''id'' VNone = None \<longrightarrow> s_id r = VNone) \<and>
      (get_attribute_value_try h shape ''master_shape'' VNone = None \<longrightarrow> s_type r = []) \<and>
      (get_attribute_value_try h (member_or h shape ''master_shape'' VNone) ''name'' VNone = None
         \<longrightarrow> s_type r = []) \<and>
      (shape_type_try_cv h shape = None \<longrightarrow> s_type r = []) \<and>
      (connections_from_connects_cv h shape = None \<longrightarrow> s_connections r = []) \<and>
      (\<forall>a. connections_from_connects_cv h shape = Some a \<and>
           connections_from_one_d_cv h shape = None \<longrightarrow> s_connections r = a) \<and>
      (extract_image_from_shape_try_cv h shape = None \<longrightarrow> \<not> s_has_image r) \<and>
      (get_shapes_from_object_cv h shape = None \<longrightarrow> s_sub_shapes r = []) \<and>
      (\<forall>before child after rs.
         depth < 5 \<and> get_shapes_from_object_cv h shape = Some (before @ child # after) \<and>
         map (\<lambda>x. extract_shape_info_cv h x (depth + 1)) before = map Some rs \<and>
         (\<forall>x \<in> set rs. keeps_sub_shape_cv h x \<noteq> None) \<and>
         extract_shape_info_cv h child (depth + 1) = None \<longrightarrow>
         s_sub_shapes r = filter (\<lambda>x. keeps_sub_shape_cv h x = Some True) rs) \<and>
      (\<forall>before child after rs c.
         depth < 5 \<and> get_shapes_from_object_cv h shape = Some (before @ child # after) \<and>
         map (\<lambda>x. extract_shape_info_cv h x (depth + 1)) before = map Some rs \<and>
         (\<forall>x \<in> set rs. keeps_sub_shape_cv h x \<noteq> None) \<and>
         extract_shape_info_cv h child (depth + 1) = Some c \<and> keeps_sub_shape_cv h c = None \<longrightarrow>
         s_sub_shapes r = filter (\<lambda>x. keeps_sub_shape_cv h x = Some True) rs)" for r
  proof -
    assume "extract_shape_info_cv h shape depth = Some r"
    then have r: "r = ShapeInfo
          (py_strip (the (try_str h (member_or h shape ''text'' (VStr [])))))
          (the (try_str h (member_or h shape ''name'' (VStr []))))
          (normalized_id h shape)
          t
          (if depth < 5 then
             (case get_shapes_from_object_cv h shape of
                None \<Rightarrow> []
              | Some sub_shapes \<Rightarrow>
                  collect_sub_shapes_cv h
                    (map (\<lambda>sub_shape. extract_shape_info_cv h sub_shape (depth + 1)) sub_shapes) [])
           else [])
          cs (img \<noteq> VNone)"
      by (simp add: cv split: if_splits)
    show ?thesis
      unfolding r shape_info.sel
      using c_text c_name c_id c_type_try c_type_master c_type_name c_conn_a c_conn_b c_img c_stop
        c_test
      by (intro conjI allI impI) simp_all
  qed
  from abort contain show ?thesis by blast
qed

text \<open>The child whose text cannot be converted is aborted, and its parent keeps the
  child before it; the master whose name cannot be read; the shape every read of which
  fails; the child whose retention test raises; the connector whose Strategy B
  fails.\<close>

theorem normalizer_failure_containment_witness:
  "conversion_aborts raising_heap (VRef 2) \<and>
   extract_shape_info_cv raising_heap (VRef 2) 1 = None \<and>
   get_shapes_from_object_cv raising_heap (VRef 0) = Some ([VRef 1] @ VRef 2 # [VRef 1]) \<and>
   extract_shape_info_cv raising_heap (VRef 1) 1 = Some (ShapeInfo ''A'' [] VNone [] [] [] False) \<and>
   extract_shape_info_cv raising_heap (VRef 0) 0 =
     Some (ShapeInfo ''Group'' [] VNone [] [ShapeInfo ''A'' [] VNone [] [] [] False] [] False) \<and>
   get_attribute_value_try raising_heap (VRef 5) ''name'' VNone = None \<and>
   extract_shape_info_cv raising_heap (VRef 4) 0 = Some (ShapeInfo [] [] VNone [] [] [] False) \<and>
   get_attribute_value_try connector_heap (VRef 7) ''text'' (VStr []) = None \<and>
   extract_shape_info_cv connector_heap (VRef 7) 0 = Some (ShapeInfo [] [] VNone [] [] [] False) \<and>
   extract_shape_info_cv raising_heap (VRef 6) 1 = Some (ShapeInfo [] [] (VRef 7) [] [] [] False) \<and>
   keeps_sub_shape_cv raising_heap (ShapeInfo [] [] (VRef 7) [] [] [] False) = None \<and>
   extract_shape_info_cv raising_heap (VRef 8) 0 =
     Some (ShapeInfo [] [] VNone [] [ShapeInfo ''A'' [] VNone [] [] [] False] [] False) \<and>
   connections_from_connects_cv connector_heap (VRef 6) = Some [(''1'', ''2'')] \<and>
   connections_from_one_d_cv connector_heap (VRef 6) = None \<and>
   (\<exists>r. extract_shape_info_cv connector_heap (VRef 6) 0 = Some r \<and>
        s_connections r = [(''1'', ''2'')])"
proof -
  have k6: "extract_shape_info_cv raising_heap (VRef 6) 1 =
      Some (ShapeInfo [] [] (VRef 7) [] [] [] False)"
    by code_simp
  have k7: "keeps_sub_shape_cv raising_heap (ShapeInfo [] [] (VRef 7) [] [] [] False) = None"
    by (simp add: keeps_sub_shape_cv_def try_truthy_def raising_heap_def heap_of_def lookup_attr_def)
  have k8: "extract_shape_info_cv raising_heap (VRef 8) 0 =
     Some (ShapeInfo [] [] VNone [] [ShapeInfo ''A'' [] VNone [] [] [] False] [] False)"
    by code_simp
  have a2: "conversion_aborts raising_heap (VRef 2)"
    by (simp add: conversion_aborts_def member_or_def try_str_def raising_heap_def heap_of_def
        lookup_attr_def)
  have g0: "get_shapes_from_object_cv raising_heap (VRef 0) = Some ([VRef 1] @ VRef 2 # [VRef 1])"
    by (simp add: get_shapes_from_object_cv_def shapes_of_candidate_cv_def py_hasattr_def
        raising_heap_def heap_of_def lookup_attr_def)
  have e1: "extract_shape_info_cv raising_heap (VRef 1) 1 =
      Some (ShapeInfo ''A'' [] VNone [] [] [] False)"
    by code_simp
  have e0: "extract_shape_info_cv raising_heap (VRef 0) 0 =
     Some (ShapeInfo ''Group'' [] VNone [] [ShapeInfo ''A'' [] VNone [] [] [] False] [] False)"
    by code_simp
  have n5: "get_attribute_value_try raising_heap (VRef 5) ''name'' VNone = None"
    by (simp add: get_attribute_value_try_def py_hasattr_def raising_heap_def heap_of_def
        lookup_attr_def)
  have e4: "extract_shape_info_cv raising_heap (VRef 4) 0 = Some (ShapeInfo [] [] VNone [] [] [] False)"
    by code_simp
  have t7: "get_attribute_value_try connector_heap (VRef 7) ''text'' (VStr []) = None"
    by (simp add: get_attribute_value_try_def py_hasattr_def connector_heap_def heap_of_def
        lookup_attr_def)
  have e7: "extract_shape_info_cv connector_heap (VRef 7) 0 =
      Some (ShapeInfo [] [] VNone [] [] [] False)"
    by code_simp
  have a6: "connections_from_connects_cv connector_heap (VRef 6) = Some [(''1'', ''2'')]"
    by code_simp
  have b6: "connections_from_one_d_cv connector_heap (VRef 6) = None"
    by (simp add: connections_from_one_d_cv_def py_hasattr_def connector_heap_def heap_of_def
        lookup_attr_def)
  have e6: "extract_shape_info_cv connector_heap (VRef 6) 0 \<noteq> None"
    by code_simp
  from normalizer_failure_containment [of raising_heap "VRef 2" 1] a2
  have e2: "extract_shape_info_cv raising_heap (VRef 2) 1 = None"
    by simp
  from normalizer_failure_containment [of connector_heap "VRef 6" 0] a6 b6 e6
  have r6: "\<exists>r. extract_shape_info_cv connector_heap (VRef 6) 0 = Some r \<and>
        s_connections r = [(''1'', ''2'')]"
    by auto
  from a2 e2 g0 e1 e0 n5 e4 t7 e7 k6 k7 k8 a6 b6 r6 show ?thesis by simp
qed

text \<open>The text step fails in \<^verbatim>\<open>str\<close> and no record is returned; the connections
  step fails in Strategy B and the field is not at its zero-value.\<close>

theorem normalizer_abort_counterexample:
  "get_attribute_value raising_heap (VRef 2) ''text'' (VStr []) = Some (VRef 3) \<and>
   try_str raising_heap (VRef 3) = None \<and>
   extract_shape_info_cv raising_heap (VRef 2) 0 = None \<and>
   connections_from_one_d_cv connector_heap (VRef 6) = None \<and>
   extract_shape_info_cv connector_heap (VRef 6) 0 =
     Some (ShapeInfo [] [] VNone [] [] [(''1'', ''2'')] False)"
proof (intro conjI)
  show "get_attribute_value raising_heap (VRef 2) ''text'' (VStr []) = Some (VRef 3)"
    by (simp add: get_attribute_value_eq raising_heap_def heap_of_def lookup_attr_def)
  show "try_str raising_heap (VRef 3) = None"
    by (simp add: try_str_def raising_heap_def heap_of_def lookup_attr_def)
  show "extract_shape_info_cv raising_heap (VRef 2) 0 = None"
    by (subst extract_shape_info_cv.simps)
       (simp add: get_attribute_value_eq try_str_def raising_heap_def heap_of_def lookup_attr_def)
  show "connections_from_one_d_cv connector_heap (VRef 6) = None"
    by (simp add: connections_from_one_d_cv_def py_hasattr_def connector_heap_def heap_of_def
        lookup_attr_def)
  show "extract_shape_info_cv connector_heap (VRef 6) 0 =
     Some (ShapeInfo [] [] VNone [] [] [(''1'', ''2'')] False)"
    by code_simp
qed

subsection \<open>The image count of a page\<close>

text \<open>
  C5. The images_count of an aggregated page is the number of its page-level media
  items plus the number of its top-level shapes whose has_image is true; the
  sub-shapes are not counted. (The aggregator returns a page whenever the Collection
  Normalizer returns for the page object.)
\<close>

theorem images_count:
  "(\<forall>pd. extract_page_data h page = Some pd \<longrightarrow>
      p_images_count pd =
        int (length (p_page_media pd)) + int (length (filter s_has_image (p_shapes pd)))) \<and>
   (\<forall>tops. get_shapes_from_object h page = Some tops \<longrightarrow>
      (\<exists>pd. extract_page_data h page = Some pd))"
proof (intro conjI allI impI)
  fix pd assume pd: "extract_page_data h page = Some pd"
  then obtain tops where "get_shapes_from_object h page = Some tops"
    by (auto simp: extract_page_data_def Option.bind_eq_Some_conv)
  from extract_page_data_shapes [OF this] pd
  show "p_images_count pd =
        int (length (p_page_media pd)) + int (length (filter s_has_image (p_shapes pd)))"
    by auto
next
  fix tops assume "get_shapes_from_object h page = Some tops"
  from extract_page_data_shapes [OF this]
  show "\<exists>pd. extract_page_data h page = Some pd" by blast
qed

text \<open>One media item, one top-level shape with an image, and an image under the
  other top-level shape: the count is 2.\<close>

theorem images_count_witness:
  "get_shapes_from_object media_heap (VRef 0) = Some [VRef 1, VRef 2] \<and>
   extract_page_data media_heap (VRef 0) =
     Some \<lparr>p_name = ''Page-1'',
           p_shapes =
             [ShapeInfo ''Photo'' [] (VInt 1) [] [] [] True,
              ShapeInfo ''Group'' [] (VInt 2) []
                [ShapeInfo [] [] (VInt 3) [] [] [] True] [] False],
           p_connections = [],
           p_images_count = 2,
           p_page_media = [\<lparr>m_index = VInt 0, m_data = VBytes ''png'', m_source = ''page.media''\<rparr>]\<rparr>"
proof -
  have g: "get_shapes_from_object media_heap (VRef 0) = Some [VRef 1, VRef 2]"
    by (simp add: media_heap_def heap_of_def lookup_attr_def py_hasattr_def
        get_shapes_from_object_def shapes_of_candidate_def)
  have e: "extract_page_data media_heap (VRef 0) =
     Some \<lparr>p_name = ''Page-1'',
           p_shapes =
             [ShapeInfo ''Photo'' [] (VInt 1) [] [] [] True,
              ShapeInfo ''Group'' [] (VInt 2) []
                [ShapeInfo [] [] (VInt 3) [] [] [] True] [] False],
           p_connections = [],
           p_images_count = 2,
           p_page_media = [\<lparr>m_index = VInt 0, m_data = VBytes ''png'', m_source = ''page.media''\<rparr>]\<rparr>"
    by code_simp
  from images_count [of media_heap "VRef 0"] g e show ?thesis by simp
qed

subsection \<open>Identifier sanitization\<close>

text \<open>
  C4, as amended. On a non-empty text the sanitized identifier has at most 50
  characters, all of them alphanumeric or underscores, and its character at each
  position is the text's character there when that is alphanumeric and one underscore
  otherwise (so nothing is collapsed: the length is that of the text, cut at 50). On
  an empty text with a truthy identifier it is \<open>shape_\<close> followed by the identifier;
  on an empty text with an identifier that is absent or falsy (0, the empty string,
  false) it is \<open>unknown\<close>.
\<close>

theorem sanitize_mermaid_id_spec:
  "(text_v \<noteq> [] \<longrightarrow>
      length (sanitize_mermaid_id text_v shape_id) = min 50 (length text_v) \<and>
      length (sanitize_mermaid_id text_v shape_id) \<le> 50 \<and>
      (\<forall>c \<in> set (sanitize_mermaid_id text_v shape_id). py_isalnum c \<or> c = CHR ''_'') \<and>
      (\<forall>i < length (sanitize_mermaid_id text_v shape_id).
         sanitize_mermaid_id text_v shape_id ! i =
           (if py_isalnum (text_v ! i) then text_v ! i else CHR ''_''))) \<and>
   (text_v = [] \<and> py_truthy shape_id \<longrightarrow>
      sanitize_mermaid_id text_v shape_id = ''shape_'' @ py_str shape_id) \<and>
   (text_v = [] \<and> \<not> py_truthy shape_id \<longrightarrow> sanitize_mermaid_id text_v shape_id = ''unknown'')"
proof (intro conjI impI)
  assume "text_v \<noteq> []"
  then have s: "sanitize_mermaid_id text_v shape_id =
      take 50 (map (\<lambda>c. if py_isalnum c then c else CHR ''_'') text_v)"
    by (simp add: sanitize_mermaid_id_def)
  show "length (sanitize_mermaid_id text_v shape_id) = min 50 (length text_v)"
    by (simp add: s min.commute)
  show "length (sanitize_mermaid_id text_v shape_id) \<le> 50"
    by (simp add: s)
  show "\<forall>c \<in> set (sanitize_mermaid_id text_v shape_id). py_isalnum c \<or> c = CHR ''_''"
  proof
    fix c assume "c \<in> set (sanitize_mermaid_id text_v shape_id)"
    then have "c \<in> set (map (\<lambda>c. if py_isalnum c then c else CHR ''_'') text_v)"
      unfolding s by (rule in_set_takeD)
    then show "py_isalnum c \<or> c = CHR ''_''" by auto
  qed
  show "\<forall>i < length (sanitize_mermaid_id text_v shape_id).
         sanitize_mermaid_id text_v shape_id ! i =
           (if py_isalnum (text_v ! i) then text_v ! i else CHR ''_'')"
    by (simp add: s)
qed (simp_all add: sanitize_mermaid_id_def)

text \<open>The inputs of the repository's own test of the sanitizer.\<close>

theorem sanitize_mermaid_id_witness:
  "sanitize_mermaid_id ''Test-123!@#$%'' VNone = ''Test_123_____'' \<and>
   length (sanitize_mermaid_id (replicate 100 CHR ''A'') VNone) = 50 \<and>
   sanitize_mermaid_id [] (VInt 123) = ''shape_123'' \<and>
   sanitize_mermaid_id [] VNone = ''unknown''"
proof -
  have a: "sanitize_mermaid_id ''Test-123!@#$%'' VNone = ''Test_123_____''"
    by code_simp
  have b: "''shape_'' @ py_str (VInt 123) = ''shape_123''"
    by code_simp
  from sanitize_mermaid_id_spec [of "replicate 100 CHR ''A''" VNone]
    sanitize_mermaid_id_spec [of "[]" "VInt 123"] sanitize_mermaid_id_spec [of "[]" VNone] a b
  show ?thesis by simp
qed

text \<open>The identifiers 0, the empty string and false are given, and the result is
  \<open>unknown\<close>, not \<open>shape_\<close> followed by the identifier.\<close>

theorem sanitize_mermaid_id_counterexample:
  "sanitize_mermaid_id [] (VInt 0) = ''unknown'' \<and>
   ''shape_'' @ py_str (VInt 0) = ''shape_0'' \<and>
   sanitize_mermaid_id [] (VStr []) = ''unknown'' \<and>
   ''shape_'' @ py_str (VStr []) = ''shape_'' \<and>
   sanitize_mermaid_id [] (VBool False) = ''unknown'' \<and>
   ''shape_'' @ py_str (VBool False) = ''shape_False''"
  by code_simp

subsection \<open>The Diagram Renderer\<close>

text \<open>
  C8. The page with the shapes Start (id "1"), Process (id "2") and End (id "3") and
  the connections ("1", "2") and ("2", "3") renders the block below: three node
  lines and the two edge lines \<open>Start --> Process\<close> and \<open>Process --> End\<close>.
\<close>

theorem flow_example:
  "generate_mermaid_lines flow_page =
     [''```mermaid'',
      ''graph TD'',
      ''    Start['' @ [CHR 0x22] @ ''Start'' @ [CHR 0x22] @ '']'',
      ''    Process['' @ [CHR 0x22] @ ''Process'' @ [CHR 0x22] @ '']'',
      ''    End['' @ [CHR 0x22] @ ''End'' @ [CHR 0x22] @ '']'',
      [],
      ''    %% Connections'',
      ''    Start --> Process'',
      ''    Process --> End'',
      ''```''] \<and>
   generate_mermaid_diagram flow_page = join_sep [CHR 0x0A] (generate_mermaid_lines flow_page)"
proof
  show "generate_mermaid_lines flow_page =
     [''```mermaid'',
      ''graph TD'',
      ''    Start['' @ [CHR 0x22] @ ''Start'' @ [CHR 0x22] @ '']'',
      ''    Process['' @ [CHR 0x22] @ ''Process'' @ [CHR 0x22] @ '']'',
      ''    End['' @ [CHR 0x22] @ ''End'' @ [CHR 0x22] @ '']'',
      [],
      ''    %% Connections'',
      ''    Start --> Process'',
      ''    Process --> End'',
      ''```'']"
    by code_simp
  show "generate_mermaid_diagram flow_page = join_sep [CHR 0x0A] (generate_mermaid_lines flow_page)"
    by (simp add: generate_mermaid_diagram_def)
qed

lemma fold_classify_shape:
  "fold classify_shape shapes (a, b, c) =
     (a @ filter (\<lambda>s. is_setup (py_lower (s_text s))) shapes,
      b @ filter (\<lambda>s. \<not> is_setup (py_lower (s_text s)) \<and> is_staging (py_lower (s_text s))) shapes,
      c @ filter (\<lambda>s. \<not> is_setup (py_lower (s_text s)) \<and> \<not> is_staging (py_lower (s_text s)) \<and>
                      is_finalization (py_lower (s_text s))) shapes)"
  by (induction shapes arbitrary: a b c) (simp_all add: classify_shape_def Let_def)

text \<open>
  C10. In the fallback without connections the three buckets are those shapes whose
  lowercased text passes the setup test, those that fail it and pass the staging
  test, and those that fail both and pass the finalization test. So no shape is in
  two buckets, a shape that passes the setup test is in neither the staging nor the
  finalization bucket, and one that passes the staging test is not in the
  finalization bucket.
\<close>

theorem bucket_priority:
  "classify_shapes shapes = (setup_shapes, staging_shapes, finalization_shapes) \<Longrightarrow>
   setup_shapes = filter (\<lambda>s. is_setup (py_lower (s_text s))) shapes \<and>
   staging_shapes =
     filter (\<lambda>s. \<not> is_setup (py_lower (s_text s)) \<and> is_staging (py_lower (s_text s))) shapes \<and>
   finalization_shapes =
     filter (\<lambda>s. \<not> is_setup (py_lower (s_text s)) \<and> \<not> is_staging (py_lower (s_text s)) \<and>
                  is_finalization (py_lower (s_text s))) shapes \<and>
   set setup_shapes \<inter> set staging_shapes = {} \<and>
   set setup_shapes \<inter> set finalization_shapes = {} \<and>
   set staging_shapes \<inter> set finalization_shapes = {} \<and>
   (\<forall>s \<in> set shapes.
      is_setup (py_lower (s_text s)) \<longrightarrow> s \<notin> set staging_shapes \<and> s \<notin> set finalization_shapes) \<and>
   (\<forall>s \<in> set shapes.
      is_staging (py_lower (s_text s)) \<longrightarrow> s \<notin> set finalization_shapes)"
  by (auto simp: classify_shapes_def fold_classify_shape)

text \<open>The first shape passes all three tests and lands in the setup bucket only.\<close>

theorem bucket_priority_witness:
  "classify_shapes bucket_shapes =
     ([ShapeInfo ''1. Staging and Finalization'' [] (VInt 1) [] [] [] False,
       ShapeInfo ''Setup of staging'' [] (VInt 4) [] [] [] False],
      [ShapeInfo ''STAGING before finalization'' [] (VInt 2) [] [] [] False],
      [ShapeInfo ''3 wrap-up'' [] (VInt 3) [] [] [] False]) \<and>
   is_setup (py_lower ''1. Staging and Finalization'') \<and>
   is_staging (py_lower ''1. Staging and Finalization'') \<and>
   is_finalization (py_lower ''1. Staging and Finalization'') \<and>
   ShapeInfo ''1. Staging and Finalization'' [] (VInt 1) [] [] [] False \<notin>
     set [ShapeInfo ''STAGING before finalization'' [] (VInt 2) [] [] [] False]"
proof -
  have c: "classify_shapes bucket_shapes =
     ([ShapeInfo ''1. Staging and Finalization'' [] (VInt 1) [] [] [] False,
       ShapeInfo ''Setup of staging'' [] (VInt 4) [] [] [] False],
      [ShapeInfo ''STAGING before finalization'' [] (VInt 2) [] [] [] False],
      [ShapeInfo ''3 wrap-up'' [] (VInt 3) [] [] [] False])"
    by code_simp
  have t: "is_setup (py_lower ''1. Staging and Finalization'')"
    "is_staging (py_lower ''1. Staging and Finalization'')"
    "is_finalization (py_lower ''1. Staging and Finalization'')"
    by code_simp+
  from bucket_priority [OF c] c t show ?thesis by simp
qed

subsection \<open>The detailed shapes of the report\<close>

lemma list_shapes_eq:
  "list_shapes shapes (markdown, n) =
     (markdown @ concat (map (\<lambda>(k, s). shape_entry (n + 1 + int k) s)
                          (enumerate 0 (filter shows_in_report shapes))),
      n + int (length (filter shows_in_report shapes)))"
proof (induction shapes arbitrary: markdown n)
  case Nil
  then show ?case by simp
next
  case (Cons s shapes)
  show ?case
  proof (cases "shows_in_report s")
    case True
    have "map (\<lambda>(k, s). shape_entry (n + 1 + int k) s)
             (enumerate (Suc 0) (filter shows_in_report shapes)) =
          map (\<lambda>(k, s). shape_entry (n + 1 + 1 + int k) s)
             (enumerate 0 (filter shows_in_report shapes))"
      by (simp add: enumerate_Suc_eq split_def add.assoc)
    with True show ?thesis by (simp add: Cons.IH)
  next
    case False
    then show ?thesis by (simp add: Cons.IH)
  qed
qed

text \<open>
  C9, as amended. On a page that has shapes, the detailed-shapes subsection lists, in
  order and numbered from 1, exactly the shapes that have a non-empty text, name or
  type, sub_shapes, or has_image true (an id alone does not list a shape); when no
  shape of the page has any of these, the single no-shapes-with-content notice
  follows the two header lines. On a page without shapes the subsection is the
  no-shapes-found notice.
\<close>

theorem detailed_shapes_listing:
  "(p_shapes pd \<noteq> [] \<longrightarrow>
      detailed_shape_information pd =
        [''#### Detailed Shape Information'' @ [CHR 0x0A],
         ''**Total shapes**: '' @ str_int (int (length (p_shapes pd))) @ [CHR 0x0A]] @
        concat (map (\<lambda>(k, s). shape_entry (1 + int k) s)
                  (enumerate 0 (filter (\<lambda>s. s_text s \<noteq> [] \<or> s_name s \<noteq> [] \<or> s_type s \<noteq> [] \<or>
                                          s_sub_shapes s \<noteq> [] \<or> s_has_image s) (p_shapes pd)))) @
        (if filter (\<lambda>s. s_text s \<noteq> [] \<or> s_name s \<noteq> [] \<or> s_type s \<noteq> [] \<or>
                         s_sub_shapes s \<noteq> [] \<or> s_has_image s) (p_shapes pd) = []
         then [no_content_notice] else [])) \<and>
   (p_shapes pd = [] \<longrightarrow> detailed_shape_information pd = [no_shapes_notice])"
proof -
  have k: "shows_in_report = (\<lambda>s. s_text s \<noteq> [] \<or> s_name s \<noteq> [] \<or> s_type s \<noteq> [] \<or>
                                          s_sub_shapes s \<noteq> [] \<or> s_has_image s)"
    by (rule ext) (simp add: shows_in_report_def)
  show ?thesis
    unfolding k [symmetric]
    by (simp add: detailed_shape_information_def list_shapes_eq)
qed

text \<open>A shape with a type only is listed, a shape with an id only is not.\<close>

theorem detailed_shapes_listing_witness:
  "p_shapes report_page \<noteq> [] \<and>
   detailed_shape_information report_page =
     [''#### Detailed Shape Information'' @ [CHR 0x0A],
      ''**Total shapes**: 3'' @ [CHR 0x0A],
      ''##### Shape 1'',
      ''- **Type**: Rectangle'',
      [],
      ''##### Shape 2'',
      ''- **Name**: Sheet.1'',
      ''- **Text**: Start'',
      ''- **ID**: 1'',
      ''- **Contains Image**: '' @ check_glyph @ '' Yes'',
      []] \<and>
   detailed_shape_information (report_page\<lparr>p_shapes := []\<rparr>) = [no_shapes_notice]"
proof -
  have a: "detailed_shape_information report_page =
     [''#### Detailed Shape Information'' @ [CHR 0x0A],
      ''**Total shapes**: 3'' @ [CHR 0x0A],
      ''##### Shape 1'',
      ''- **Type**: Rectangle'',
      [],
      ''##### Shape 2'',
      ''- **Name**: Sheet.1'',
      ''- **Text**: Start'',
      ''- **ID**: 1'',
      ''- **Contains Image**: '' @ check_glyph @ '' Yes'',
      []]"
    by code_simp
  have b: "p_shapes report_page \<noteq> []"
    by (simp add: report_page_def)
  from detailed_shapes_listing [of report_page]
    detailed_shapes_listing [of "report_page\<lparr>p_shapes := []\<rparr>"] a b
  show ?thesis by simp
qed

text \<open>The only shape of the page has an id, so it has observable content in the
  sense of the data model; the subsection does not list it and prints the notice.\<close>

theorem detailed_shapes_counterexample:
  "has_observable_content (ShapeInfo [] [] (VInt 5) [] [] [] False) \<and>
   p_shapes id_only_page = [ShapeInfo [] [] (VInt 5) [] [] [] False] \<and>
   detailed_shape_information id_only_page =
     [''#### Detailed Shape Information'' @ [CHR 0x0A],
      ''**Total shapes**: 1'' @ [CHR 0x0A],
      no_content_notice]"
proof (intro conjI)
  show "has_observable_content (ShapeInfo [] [] (VInt 5) [] [] [] False)"
    by (simp add: has_observable_content_def)
  show "p_shapes id_only_page = [ShapeInfo [] [] (VInt 5) [] [] [] False]"
    by (simp add: id_only_page_def)
  show "detailed_shape_information id_only_page =
     [''#### Detailed Shape Information'' @ [CHR 0x0A],
      ''**Total shapes**: 1'' @ [CHR 0x0A],
      no_content_notice]"
    by code_simp
qed

end
